theory Spec2Isabelle
  imports Main
begin

section \<open>JavaScript values\<close>

text \<open>
  The library is untyped at run time: options, identifiers, transport errors and response
  bodies are arbitrary JavaScript values. \<open>JStream chunks ends\<close> is a readable stream
  that emits \<open>chunks\<close> and then, when \<open>ends\<close> holds, its \<open>end\<close> event.
  \<open>JModem n\<close> is a reference to the transport collaborator number \<open>n\<close>,
  \<open>JRef a\<close> a reference to the object at address \<open>a\<close> of the heap, and
  \<open>JTypeError\<close> the TypeError raised by the runtime. Numbers are the integers
  (the code only produces lengths). In \<open>JObj kv\<close> a later entry for a key overrides an
  earlier one, as successive assignments do.
\<close>

datatype jsval =
    JUndefined | JNull | JBool bool | JNum int | JStr string
  | JArr "jsval list" | JObj "(string \<times> jsval) list"
  | JStream "string list" bool | JModem nat | JRef nat | JTypeError

abbreviation true :: jsval where "true \<equiv> JBool True"

text \<open>Truthiness, as tested by \<open>if (err)\<close>, \<open>!id\<close>, \<open>!opts\<close> and \<open>!!opts.stream\<close>.\<close>

fun truthy :: "jsval \<Rightarrow> bool" where
  "truthy JUndefined = False"
| "truthy JNull = False"
| "truthy (JBool b) = b"
| "truthy (JNum n) = (n \<noteq> 0)"
| "truthy (JStr s) = (s \<noteq> [])"
| "truthy _ = True"

text \<open>
  Reading a property \<open>v.k\<close>. \<open>None\<close> is the TypeError of reading a property of
  \<open>undefined\<close> or \<open>null\<close>. The code only reads the names Id, ID, Name, Volumes, length,
  stream, hijack, stdin, path and name; of these arrays and strings have \<open>length\<close> only.
  Streams, transports and handles carry none of them.
\<close>

fun get_prop :: "jsval \<Rightarrow> string \<Rightarrow> jsval option" where
  "get_prop JUndefined k = None"
| "get_prop JNull k = None"
| "get_prop (JObj kv) k = Some (case map_of (rev kv) k of None \<Rightarrow> JUndefined | Some v \<Rightarrow> v)"
| "get_prop (JArr xs) k = Some (if k = ''length'' then JNum (int (length xs)) else JUndefined)"
| "get_prop (JStr s) k = Some (if k = ''length'' then JNum (int (length s)) else JUndefined)"
| "get_prop _ k = Some JUndefined"

text \<open>A default parameter \<open>opts = {}\<close> replaces \<open>undefined\<close> only.\<close>

definition dflt :: "jsval \<Rightarrow> jsval" where
  "dflt v = (if v = JUndefined then JObj [] else v)"

text \<open>Decimal rendering of a number, and \<open>Array.prototype.join\<close>.\<close>

fun show_nat :: "nat \<Rightarrow> string" where
  "show_nat n =
     (if n < 10 then [''0123456789'' ! n]
      else show_nat (n div 10) @ [''0123456789'' ! (n mod 10)])"

definition show_int :: "int \<Rightarrow> string" where
  "show_int i = (if i < 0 then CHR ''-'' # show_nat (nat (- i)) else show_nat (nat i))"

fun join :: "string \<Rightarrow> string list \<Rightarrow> string" where
  "join sep [] = []"
| "join sep [x] = x"
| "join sep (x # y # ys) = x @ sep @ join sep (y # ys)"

text \<open>
  \<open>toString\<close> is the conversion a template literal \<open>`${v}`\<close> applies. An array joins its
  elements with commas, \<open>null\<close> and \<open>undefined\<close> elements rendering as the empty
  string; every other object renders as \<open>[object Object]\<close>, and an error by its name
  (its message is not modelled).
\<close>

fun toString :: "jsval \<Rightarrow> string" where
  "toString JUndefined = ''undefined''"
| "toString JNull = ''null''"
| "toString (JBool b) = (if b then ''true'' else ''false'')"
| "toString (JNum n) = show_int n"
| "toString (JStr s) = s"
| "toString (JArr xs) =
     join '','' (map (\<lambda>x. if x = JUndefined \<or> x = JNull then [] else toString x) xs)"
| "toString JTypeError = ''TypeError''"
| "toString _ = ''[object Object]''"

text \<open>
  \<open>s.replace(pat, '')\<close> with a string pattern: the first occurrence of \<open>pat\<close> in
  \<open>s\<close>, wherever it stands, is removed; a string without one is returned as it is.
\<close>

fun replace_first :: "string \<Rightarrow> string \<Rightarrow> string" where
  "replace_first pat [] = []"
| "replace_first pat (c # cs) =
     (if take (length pat) (c # cs) = pat \<and> pat \<noteq> [] then drop (length pat) (c # cs)
      else c # replace_first pat cs)"

section \<open>Objects, the heap and the request descriptor\<close>

datatype cls =
    Docker | Exec | ExecManager | ContainerFs | Container | ContainerManager
  | Image | ImageManager | Plugin | Network | NetworkManager | Node | NodeManager
  | Secret | SecretManager | Service | ServiceManager | Swarm | Task | TaskManager
  | Volume | VolumeManager

text \<open>
  An object of one of the library's classes. A field the class does not declare is
  \<open>JUndefined\<close>. \<open>props\<close> holds the properties that \<open>Object.assign\<close> adds to a
  plugin beyond the named fields. The manager slots of the \<open>Docker\<close> facade are not
  read by any of its operations and are left out.
\<close>

record obj =
  cls :: cls
  modem :: jsval
  obj_id :: jsval
  data :: jsval
  Warnings :: jsval
  container :: jsval
  fs :: jsval
  exec :: jsval
  props :: "(string \<times> jsval) list"

datatype verb = GET | POST | PUT | DELETE | HEAD

record call =
  path :: string
  "method" :: verb
  options :: jsval
  statusCodes :: "(nat \<times> jsval) list"
  isStream :: jsval
  hijack :: jsval
  openStdin :: jsval
  "file" :: jsval
  authconfig :: jsval
  registryconfig :: jsval

text \<open>
  The world: the heap of objects (an address is an index; \<open>new\<close> appends) and the
  descriptors handed to \<open>dial\<close> so far, oldest first.
\<close>

record world =
  heap :: "obj list"
  dialed :: "call list"

text \<open>The arguments of an operation; one that is not passed is \<open>JUndefined\<close>.\<close>

record args =
  opts :: jsval
  auth :: jsval
  file_arg :: jsval
  id_arg :: jsval

definition no_args :: args where
  "no_args = \<lparr>opts = JUndefined, auth = JUndefined, file_arg = JUndefined, id_arg = JUndefined\<rparr>"

text \<open>
  The promise an operation returns: resolved, rejected, or not settled (\<open>Pending\<close>).
  \<open>Resolved_mapped s\<close>: resolved with the stream that \<open>s.map(f)\<close> returns for the
  stream \<open>s\<close>; it applies \<open>f\<close> only when it is read. \<open>Thrown e\<close>: the exception
  \<open>e\<close> was raised outside the promise, which is left unsettled: by a completion
  callback that the transport invoked after \<open>dial\<close> had returned, or by the call of
  a method on a receiver that does not exist.
\<close>

datatype outcome =
  Resolved jsval | Resolved_mapped jsval | Rejected jsval | Thrown jsval | Pending

text \<open>
  The transport collaborator is outside the library. \<open>dial T n c\<close>: for the
  transport \<open>n\<close> and the descriptor \<open>c\<close> it either calls back with
  \<open>(err, result)\<close> or never does. \<open>within T n c\<close>: it calls back before \<open>dial\<close>
  returns, as a stub may; an HTTP client calls back later.
\<close>

record transport =
  dial :: "nat \<Rightarrow> call \<Rightarrow> (jsval \<times> jsval) option"
  within :: "nat \<Rightarrow> call \<Rightarrow> bool"

subsection \<open>Constructors\<close>

definition blank :: "cls \<Rightarrow> obj" where
  "blank k = \<lparr>cls = k, modem = JUndefined, obj_id = JUndefined, data = JUndefined,
     Warnings = JUndefined, container = JUndefined, fs = JUndefined, exec = JUndefined,
     props = []\<rparr>"

definition alloc :: "obj \<Rightarrow> world \<Rightarrow> nat \<times> world" where
  "alloc ob w = (length (heap w), w\<lparr>heap := heap w @ [ob]\<rparr>)"

text \<open>
  \<open>new K(modem, id)\<close> for Image, Volume, Network, Node, Secret, Service and Task: the
  field initialiser \<open>data = {}\<close>, then the two assignments of the constructor.
\<close>

definition new_handle :: "cls \<Rightarrow> jsval \<Rightarrow> jsval \<Rightarrow> world \<Rightarrow> nat \<times> world" where
  "new_handle k m i w = alloc ((blank k)\<lparr>modem := m, obj_id := i, data := JObj []\<rparr>) w"

text \<open>\<open>new Swarm(modem)\<close>: \<open>data = {}\<close> and no identifier.\<close>

definition new_Swarm :: "jsval \<Rightarrow> world \<Rightarrow> nat \<times> world" where
  "new_Swarm m w = alloc ((blank Swarm)\<lparr>modem := m, data := JObj []\<rparr>) w"

text \<open>\<open>new Plugin(modem, id)\<close>: the class declares no \<open>data\<close>.\<close>

definition new_Plugin :: "jsval \<Rightarrow> jsval \<Rightarrow> world \<Rightarrow> nat \<times> world" where
  "new_Plugin m i w = alloc ((blank Plugin)\<lparr>modem := m, obj_id := i\<rparr>) w"

text \<open>\<open>new Exec(modem, container, id)\<close>.\<close>

definition new_Exec :: "jsval \<Rightarrow> jsval \<Rightarrow> jsval \<Rightarrow> world \<Rightarrow> nat \<times> world" where
  "new_Exec m c i w =
     alloc ((blank Exec)\<lparr>modem := m, container := c, obj_id := i, data := JObj []\<rparr>) w"

text \<open>
  \<open>new Container(modem, id)\<close>: \<open>Warnings = []\<close>, \<open>data\<close> declared without a value, and
  the two sub-handles built eagerly with a reference back to the container.
\<close>

definition new_Container :: "jsval \<Rightarrow> jsval \<Rightarrow> world \<Rightarrow> nat \<times> world" where
  "new_Container m i w =
     (let a = length (heap w) in
      (a, w\<lparr>heap := heap w @
             [(blank Container)\<lparr>modem := m, obj_id := i, Warnings := JArr [],
                fs := JRef (a + 1), exec := JRef (a + 2)\<rparr>,
              (blank ContainerFs)\<lparr>modem := m, container := JRef a\<rparr>,
              (blank ExecManager)\<lparr>modem := m, container := JRef a\<rparr>]\<rparr>))"

text \<open>The assignments \<open>handle.data = conf\<close> and \<open>container.Warnings = warnings\<close>.\<close>

definition set_data :: "nat \<Rightarrow> jsval \<Rightarrow> world \<Rightarrow> world" where
  "set_data a v w = w\<lparr>heap := (heap w)[a := (heap w ! a)\<lparr>data := v\<rparr>]\<rparr>"

definition set_Warnings :: "nat \<Rightarrow> jsval \<Rightarrow> world \<Rightarrow> world" where
  "set_Warnings a v w = w\<lparr>heap := (heap w)[a := (heap w ! a)\<lparr>Warnings := v\<rparr>]\<rparr>"

text \<open>
  \<open>Object.assign(plugin, conf)\<close> copies the own enumerable properties of \<open>conf\<close>: the
  entries of an object, the indexed elements of an array or string, nothing of
  \<open>null\<close>, \<open>undefined\<close> or another primitive. A copied key that names a field
  overwrites that field, \<open>id\<close> and \<open>modem\<close> included.
\<close>

definition own_props :: "jsval \<Rightarrow> (string \<times> jsval) list" where
  "own_props v =
     (case v of
        JObj kv \<Rightarrow> kv
      | JArr xs \<Rightarrow> zip (map show_nat [0..<length xs]) xs
      | JStr s \<Rightarrow> zip (map show_nat [0..<length s]) (map (\<lambda>c. JStr [c]) s)
      | _ \<Rightarrow> [])"

definition set_field :: "string \<times> jsval \<Rightarrow> obj \<Rightarrow> obj" where
  "set_field kv ob =
     (let k = fst kv; v = snd kv in
      if k = ''modem'' then ob\<lparr>modem := v\<rparr>
      else if k = ''id'' then ob\<lparr>obj_id := v\<rparr>
      else if k = ''data'' then ob\<lparr>data := v\<rparr>
      else if k = ''Warnings'' then ob\<lparr>Warnings := v\<rparr>
      else if k = ''container'' then ob\<lparr>container := v\<rparr>
      else if k = ''fs'' then ob\<lparr>fs := v\<rparr>
      else if k = ''exec'' then ob\<lparr>exec := v\<rparr>
      else ob\<lparr>props := props ob @ [kv]\<rparr>)"

definition Object_assign :: "nat \<Rightarrow> jsval \<Rightarrow> world \<Rightarrow> world" where
  "Object_assign a conf w =
     w\<lparr>heap := (heap w)[a := fold set_field (own_props conf) (heap w ! a)]\<rparr>"

text \<open>
  \<open>this.container.id\<close>, read by the sub-handles of a container; \<open>None\<close> is the
  TypeError of reading \<open>id\<close> of \<open>undefined\<close> or \<open>null\<close>.
\<close>

definition container_id :: "world \<Rightarrow> obj \<Rightarrow> jsval option" where
  "container_id w this =
     (case container this of
        JRef a \<Rightarrow> if a < length (heap w) then Some (obj_id (heap w ! a)) else None
      | JUndefined \<Rightarrow> None
      | JNull \<Rightarrow> None
      | _ \<Rightarrow> Some JUndefined)"

definition call0 :: "string \<Rightarrow> verb \<Rightarrow> jsval \<Rightarrow> (nat \<times> jsval) list \<Rightarrow> call" where
  "call0 p m os sc =
     \<lparr>path = p, method = m, options = os, statusCodes = sc, isStream = JUndefined,
      hijack = JUndefined, openStdin = JUndefined, file = JUndefined,
      authconfig = JUndefined, registryconfig = JUndefined\<rparr>"

section \<open>The operations and their request descriptors\<close>

text \<open>
  One constructor per asynchronous method, grouped by module. The anonymous default
  export of a module is named as \<open>docker.ts\<close> imports it (ContainerManager, ...).
\<close>

datatype docker_op = Docker_auth | Docker_info | Docker_version | Docker_ping | Docker_events

datatype exec_op = Exec_create | Exec_start | Exec_resize | Exec_status | ExecManager_create

datatype fs_op = ContainerFs_info | ContainerFs_get | ContainerFs_put

datatype container_op =
    Container_status | Container_top | Container_logs | Container_changes
  | Container_export | Container_stats | Container_resize | Container_start
  | Container_stop | Container_restart | Container_kill | Container_update
  | Container_rename | Container_pause | Container_unpause | Container_attach
  | Container_wsattach | Container_wait | Container_delete | Container_commit

datatype containermanager_op =
    ContainerManager_list | ContainerManager_create | ContainerManager_prune

datatype image_op =
    Image_status | Image_history | Image_push | Image_tag | Image_remove | Image_get
  | ImageManager_search | ImageManager_list | ImageManager_build | ImageManager_create
  | ImageManager_getAll | ImageManager_load | ImageManager_prune

datatype plugin_op =
    Plugin_list | Plugin_upgrade | Plugin_create | Plugin_install | Plugin_status
  | Plugin_remove | Plugin_push | Plugin_set | Plugin_enable | Plugin_disable

datatype network_op =
    Network_status | Network_remove | Network_connect | Network_disconnect
  | NetworkManager_list | NetworkManager_create | NetworkManager_prune

datatype node_op = Node_update | Node_status | Node_remove | NodeManager_list

datatype secret_op = Secret_status | Secret_remove | SecretManager_list | SecretManager_create

datatype service_op =
    Service_update | Service_status | Service_remove | Service_logs
  | ServiceManager_create | ServiceManager_list

datatype swarm_op = Swarm_init | Swarm_status | Swarm_join | Swarm_leave | Swarm_update

datatype task_op = Task_status | TaskManager_list

datatype volume_op =
    Volume_status | Volume_remove | VolumeManager_list | VolumeManager_create
  | VolumeManager_prune

datatype op =
    DockerOp docker_op | ExecOp exec_op | FsOp fs_op | ContainerOp container_op
  | ContainerManagerOp containermanager_op | ImageOp image_op | PluginOp plugin_op
  | NetworkOp network_op | NodeOp node_op | SecretOp secret_op | ServiceOp service_op
  | SwarmOp swarm_op | TaskOp task_op | VolumeOp volume_op

subsection \<open>docker.ts\<close>

fun Docker_call :: "docker_op \<Rightarrow> args \<Rightarrow> call" where
  "Docker_call Docker_auth a =
     call0 ''/auth?'' POST (opts a)
       [(200, true), (204, true), (500, JStr ''server error'')]"
| "Docker_call Docker_info a =
     call0 ''/info?'' GET JUndefined [(200, true), (500, JStr ''server error'')]"
| "Docker_call Docker_version a =
     call0 ''/version?'' GET JUndefined [(200, true), (500, JStr ''server error'')]"
| "Docker_call Docker_ping a =
     call0 ''/_ping?'' GET JUndefined [(200, true), (500, JStr ''server error'')]"
| "Docker_call Docker_events a =
     (call0 ''/events?'' GET (dflt (opts a)) [(200, true), (500, JStr ''server error'')])
       \<lparr>isStream := true\<rparr>"

subsection \<open>container.ts\<close>

text \<open>
  \<open>cid\<close> is \<open>this.container.id\<close> and \<open>None\<close> the TypeError of a property read that
  fails while the descriptor is built.
\<close>

fun Exec_call :: "exec_op \<Rightarrow> jsval option \<Rightarrow> obj \<Rightarrow> args \<Rightarrow> call option" where
  "Exec_call Exec_create cid this a =
     (case cid of None \<Rightarrow> None
      | Some c \<Rightarrow> Some (call0 (''/containers/'' @ toString c @ ''/exec?'') POST (opts a)
          [(200, true), (201, true), (404, JStr ''no such container''),
           (409, JStr ''container is paused''), (500, JStr ''server error'')]))"
| "Exec_call Exec_start cid this a =
     (case (get_prop (dflt (opts a)) ''hijack'', get_prop (dflt (opts a)) ''stdin'') of
        (Some h, Some s) \<Rightarrow>
          Some ((call0 (''/exec/'' @ toString (obj_id this) @ ''/start?'') POST (dflt (opts a))
              [(200, true), (404, JStr ''no such exec instance''),
               (409, JStr ''container is paused'')])
            \<lparr>isStream := true, hijack := h, openStdin := s\<rparr>)
      | _ \<Rightarrow> None)"
| "Exec_call Exec_resize cid this a =
     Some (call0 (''/exec/'' @ toString (obj_id this) @ ''/resize?'') POST (opts a)
       [(201, true), (404, JStr ''no such exec instance'')])"
| "Exec_call Exec_status cid this a =
     Some (call0 (''/exec/'' @ toString (obj_id this) @ ''/json?'') GET (opts a)
       [(200, true), (404, JStr ''no such exec instance''), (500, JStr ''server error'')])"
| "Exec_call ExecManager_create cid this a =
     (case cid of None \<Rightarrow> None
      | Some c \<Rightarrow> Some (call0 (''/containers/'' @ toString c @ ''/exec?'') POST (opts a)
          [(200, true), (201, true), (404, JStr ''no such container''),
           (409, JStr ''container is paused''), (500, JStr ''server error'')]))"

fun ContainerFs_call :: "fs_op \<Rightarrow> jsval option \<Rightarrow> args \<Rightarrow> call option" where
  "ContainerFs_call ContainerFs_info cid a =
     (case cid of None \<Rightarrow> None
      | Some c \<Rightarrow> Some ((call0 (''/containers/'' @ toString c @ ''/archive?'') HEAD (opts a)
          [(200, true), (404, JStr ''bad request''), (500, JStr ''server error'')])
            \<lparr>isStream := true\<rparr>))"
| "ContainerFs_call ContainerFs_get cid a =
     (case (cid, get_prop (dflt (opts a)) ''path'') of
        (Some c, Some p) \<Rightarrow>
          Some ((call0 (''/containers/'' @ toString c @ ''/archive?path='' @ toString p @ ''&'')
              GET (dflt (opts a))
              [(200, true), (400, JStr ''bad request''), (404, JStr ''no such container''),
               (500, JStr ''server error'')])
            \<lparr>isStream := true\<rparr>)
      | _ \<Rightarrow> None)"
| "ContainerFs_call ContainerFs_put cid a =
     (case cid of None \<Rightarrow> None
      | Some c \<Rightarrow> Some ((call0 (''/containers/'' @ toString c @ ''/archive?'') PUT (opts a)
          [(200, true), (400, JStr ''bad request''), (403, JStr ''permission denied''),
           (404, JStr ''no such container''), (500, JStr ''server error'')])
            \<lparr>isStream := true, file := file_arg a\<rparr>))"

text \<open>
  \<open>opts.container = this.id\<close>, the first statement of \<open>commit\<close>. The module is in strict
  mode, so the assignment raises on \<open>null\<close> and on a primitive (the default \<open>{}\<close> has
  replaced \<open>undefined\<close> before). On an array, stream or handle it sets a property that
  \<open>jsval\<close> does not represent; the value is passed on as it is.
\<close>

fun set_container :: "jsval \<Rightarrow> jsval \<Rightarrow> jsval option" where
  "set_container (JObj kv) v = Some (JObj (kv @ [(''container'', v)]))"
| "set_container (JArr xs) v = Some (JArr xs)"
| "set_container (JStream cs e) v = Some (JStream cs e)"
| "set_container (JModem n) v = Some (JModem n)"
| "set_container (JRef r) v = Some (JRef r)"
| "set_container JTypeError v = Some JTypeError"
| "set_container _ v = None"

fun Container_call :: "container_op \<Rightarrow> obj \<Rightarrow> args \<Rightarrow> call option" where
  "Container_call Container_status this a =
     Some (call0 (''/containers/'' @ toString (obj_id this) @ ''/json?'') GET (opts a)
       [(200, true), (404, JStr ''no such container''), (500, JStr ''server error'')])"
| "Container_call Container_top this a =
     Some (call0 (''/containers/'' @ toString (obj_id this) @ ''/top?'') GET (opts a)
       [(200, true), (404, JStr ''no such container''), (500, JStr ''server error'')])"
| "Container_call Container_logs this a =
     Some ((call0 (''/containers/'' @ toString (obj_id this) @ ''/logs?'') GET (opts a)
       [(101, true), (200, true), (404, JStr ''no such container''),
        (500, JStr ''server error'')])
         \<lparr>isStream := true\<rparr>)"
| "Container_call Container_changes this a =
     Some (call0 (''/containers/'' @ toString (obj_id this) @ ''/changes?'') GET (JObj [])
       [(200, true), (404, JStr ''no such container''), (500, JStr ''server error'')])"
| "Container_call Container_export this a =
     (case get_prop (dflt (opts a)) ''stream'' of
        None \<Rightarrow> None
      | Some s \<Rightarrow>
          Some ((call0 (''/containers/'' @ toString (obj_id this) @ ''/export?'') GET
              (dflt (opts a))
              [(200, true), (404, JStr ''no such container''), (500, JStr ''server error'')])
            \<lparr>isStream := JBool (truthy s)\<rparr>))"
| "Container_call Container_stats this a =
     Some ((call0 (''/containers/'' @ toString (obj_id this) @ ''/stats?'') GET (opts a)
       [(200, true), (404, JStr ''no such container''), (500, JStr ''server error'')])
         \<lparr>isStream := true\<rparr>)"
| "Container_call Container_resize this a =
     Some (call0 (''/containers/'' @ toString (obj_id this) @ ''/resize?'') GET (opts a)
       [(200, true), (404, JStr ''no such container''), (500, JStr ''server error'')])"
| "Container_call Container_start this a =
     Some (call0 (''/containers/'' @ toString (obj_id this) @ ''/start?'') POST (dflt (opts a))
       [(204, true), (304, true), (404, JStr ''no such container''),
        (500, JStr ''server error'')])"
| "Container_call Container_stop this a =
     Some (call0 (''/containers/'' @ toString (obj_id this) @ ''/stop?'') POST (opts a)
       [(204, true), (304, true), (404, JStr ''no such container''),
        (500, JStr ''server error'')])"
| "Container_call Container_restart this a =
     Some (call0 (''/containers/'' @ toString (obj_id this) @ ''/restart?'') POST (opts a)
       [(204, true), (404, JStr ''no such container''), (500, JStr ''server error'')])"
| "Container_call Container_kill this a =
     Some (call0 (''/containers/'' @ toString (obj_id this) @ ''/kill?'') POST (opts a)
       [(204, true), (404, JStr ''no such container''), (500, JStr ''server error'')])"
| "Container_call Container_update this a =
     Some (call0 (''/containers/'' @ toString (obj_id this) @ ''/update?'') POST (opts a)
       [(200, true), (400, JStr ''bad request''), (404, JStr ''no such container''),
        (500, JStr ''server error'')])"
| "Container_call Container_rename this a =
     Some (call0 (''/containers/'' @ toString (obj_id this) @ ''/rename?'') POST (opts a)
       [(204, true), (404, JStr ''no such container''), (409, JStr ''name already taken''),
        (500, JStr ''server error'')])"
| "Container_call Container_pause this a =
     Some (call0 (''/containers/'' @ toString (obj_id this) @ ''/pause?'') POST (JObj [])
       [(204, true), (404, JStr ''no such container''), (500, JStr ''server error'')])"
| "Container_call Container_unpause this a =
     Some (call0 (''/containers/'' @ toString (obj_id this) @ ''/unpause?'') POST (JObj [])
       [(204, true), (404, JStr ''no such container''), (500, JStr ''server error'')])"
| "Container_call Container_attach this a =
     (case get_prop (dflt (opts a)) ''stdin'' of
        None \<Rightarrow> None
      | Some s \<Rightarrow>
          Some ((call0 (''/containers/'' @ toString (obj_id this) @ ''/attach?'') POST
              (dflt (opts a))
              [(101, true), (200, true), (400, JStr ''bad request''),
               (404, JStr ''no such container''), (500, JStr ''server error'')])
            \<lparr>isStream := true, openStdin := s\<rparr>))"
| "Container_call Container_wsattach this a =
     Some (call0 (''/containers/'' @ toString (obj_id this) @ ''/attach/ws?'') GET (opts a)
       [(200, true), (400, JStr ''bad request''), (404, JStr ''no such container''),
        (500, JStr ''server error'')])"
| "Container_call Container_wait this a =
     Some (call0 (''/containers/'' @ toString (obj_id this) @ ''/wait?'') POST (JObj [])
       [(200, true), (404, JStr ''no such container''), (500, JStr ''server error'')])"
| "Container_call Container_delete this a =
     Some (call0 (''/containers/'' @ toString (obj_id this) @ ''?'') DELETE (opts a)
       [(204, true), (400, JStr ''bad request''), (404, JStr ''no such container''),
        (500, JStr ''server error'')])"
| "Container_call Container_commit this a =
     (case set_container (dflt (opts a)) (obj_id this) of
        None \<Rightarrow> None
      | Some os \<Rightarrow>
          Some (call0 ''/commit?'' POST os
            [(201, true), (404, JStr ''no such container''), (500, JStr ''server error'')]))"

fun ContainerManager_call :: "containermanager_op \<Rightarrow> args \<Rightarrow> call" where
  "ContainerManager_call ContainerManager_list a =
     call0 ''/containers/json?'' GET (opts a)
       [(200, true), (400, JStr ''bad request''), (500, JStr ''server error'')]"
| "ContainerManager_call ContainerManager_create a =
     call0 ''/containers/create?'' POST (opts a)
       [(200, true), (201, true), (400, JStr ''bad request''), (404, JStr ''no such image''),
        (406, JStr ''impossible to attach''), (500, JStr ''server error'')]"
| "ContainerManager_call ContainerManager_prune a =
     call0 ''/containers/prune'' POST (opts a) [(200, true), (500, JStr ''server error'')]"

subsection \<open>image.ts\<close>

fun Image_call :: "image_op \<Rightarrow> obj \<Rightarrow> args \<Rightarrow> call" where
  "Image_call Image_status this a =
     call0 (''/images/'' @ toString (obj_id this) @ ''/json?'') GET (opts a)
       [(200, true), (404, JStr ''no such image''), (500, JStr ''server error'')]"
| "Image_call Image_history this a =
     call0 (''/images/'' @ toString (obj_id this) @ ''/history?'') GET (opts a)
       [(200, true), (404, JStr ''no such image''), (500, JStr ''server error'')]"
| "Image_call Image_push this a =
     (call0 (''/images/'' @ toString (obj_id this) @ ''/push?'') POST (opts a)
       [(200, true), (404, JStr ''no such image''), (500, JStr ''server error'')])
         \<lparr>isStream := true, authconfig := auth a\<rparr>"
| "Image_call Image_tag this a =
     call0 (''/images/'' @ toString (obj_id this) @ ''/tag?'') POST (opts a)
       [(201, true), (400, JStr ''bad parameter''), (404, JStr ''no such image''),
        (409, JStr ''conflict''), (500, JStr ''server error'')]"
| "Image_call Image_remove this a =
     call0 (''/images/'' @ toString (obj_id this) @ ''?'') DELETE (opts a)
       [(200, true), (404, JStr ''no such image''), (409, JStr ''conflict''),
        (500, JStr ''server error'')]"
| "Image_call Image_get this a =
     (call0 (''/images/'' @ toString (obj_id this) @ ''/get?'') GET (opts a)
       [(200, true), (500, JStr ''server error'')])
         \<lparr>isStream := true\<rparr>"
| "Image_call ImageManager_search this a =
     call0 ''/images/search?'' GET (opts a) [(200, true), (500, JStr ''server error'')]"
| "Image_call ImageManager_list this a =
     call0 ''/images/json?'' GET (opts a)
       [(200, true), (400, JStr ''bad request''), (500, JStr ''server error'')]"
| "Image_call ImageManager_build this a =
     (call0 ''/build?'' POST (opts a) [(200, true), (500, JStr ''server error'')])
       \<lparr>file := file_arg a, isStream := true, registryconfig := auth a\<rparr>"
| "Image_call ImageManager_create this a =
     (call0 ''/images/create?'' POST (opts a) [(200, true), (500, JStr ''server error'')])
       \<lparr>isStream := true, authconfig := auth a\<rparr>"
| "Image_call ImageManager_getAll this a =
     (call0 ''/images/get?'' GET (opts a) [(200, true), (500, JStr ''server error'')])
       \<lparr>isStream := true\<rparr>"
| "Image_call ImageManager_load this a =
     (call0 ''/images/load?'' POST (opts a) [(200, true), (500, JStr ''server error'')])
       \<lparr>file := file_arg a, isStream := true\<rparr>"
| "Image_call ImageManager_prune this a =
     call0 ''/images/prune'' POST (opts a) [(200, true), (500, JStr ''server error'')]"

subsection \<open>plugin.ts\<close>

text \<open>
  \<open>__processArguments(opts, id)\<close>, returning the pair \<open>[opts, id]\<close>:
  \<^verbatim>\<open>
    if (typeof opts === 'string' && !id) { id = opts }
    if (!id && this.id) { id = this.id }
    if (!opts) opts = {}
  \<close>
\<close>

fun is_string :: "jsval \<Rightarrow> bool" where
  "is_string (JStr s) = True"
| "is_string _ = False"

definition processArguments :: "obj \<Rightarrow> jsval \<Rightarrow> jsval \<Rightarrow> jsval \<times> jsval" where
  "processArguments this os i =
     (let i1 = (if is_string os \<and> \<not> truthy i then os else i);
          i2 = (if \<not> truthy i1 \<and> truthy (obj_id this) then obj_id this else i1);
          os1 = (if \<not> truthy os then JObj [] else os)
      in (os1, i2))"

text \<open>
  The arguments as the body of a plugin method sees them after its first statement:
  \<open>upgrade\<close> passes \<open>opts\<close> alone to \<open>__processArguments\<close>; \<open>list\<close>, \<open>create\<close> and
  \<open>install\<close> do not call it.
\<close>

fun Plugin_args :: "plugin_op \<Rightarrow> obj \<Rightarrow> args \<Rightarrow> args" where
  "Plugin_args Plugin_list this a = a"
| "Plugin_args Plugin_create this a = a"
| "Plugin_args Plugin_install this a = a"
| "Plugin_args Plugin_upgrade this a =
     (case processArguments this (opts a) JUndefined of
        (os, i) \<Rightarrow> a\<lparr>opts := os, id_arg := i\<rparr>)"
| "Plugin_args p this a =
     (case processArguments this (opts a) (id_arg a) of
        (os, i) \<Rightarrow> a\<lparr>opts := os, id_arg := i\<rparr>)"

text \<open>The descriptor, from the arguments \<open>Plugin_args\<close> returns.\<close>

fun Plugin_call :: "plugin_op \<Rightarrow> args \<Rightarrow> call" where
  "Plugin_call Plugin_list a =
     call0 ''/plugins?'' GET (opts a) [(200, true), (500, JStr ''server error'')]"
| "Plugin_call Plugin_upgrade a =
     call0 (''/plugins/'' @ toString (id_arg a) @ ''/upgrade?'') POST (opts a)
       [(204, true), (404, JStr ''plugin not installed''), (500, JStr ''server error'')]"
| "Plugin_call Plugin_create a =
     call0 ''/plugins/create?'' POST (opts a) [(204, true), (500, JStr ''server error'')]"
| "Plugin_call Plugin_install a =
     call0 ''/plugins/pull?'' POST (opts a) [(200, true), (500, JStr ''server error'')]"
| "Plugin_call Plugin_status a =
     call0 (''/plugins/'' @ toString (id_arg a) @ ''?'') GET (opts a)
       [(200, true), (404, JStr ''no such plugin''), (500, JStr ''server error'')]"
| "Plugin_call Plugin_remove a =
     call0 (''/plugins/'' @ toString (id_arg a) @ ''?'') DELETE (opts a)
       [(200, true), (404, JStr ''no such plugin''), (500, JStr ''server error'')]"
| "Plugin_call Plugin_push a =
     call0 (''/plugins/'' @ toString (id_arg a) @ ''/push?'') POST (opts a)
       [(200, true), (404, JStr ''plugin not found''), (500, JStr ''server error'')]"
| "Plugin_call Plugin_set a =
     call0 (''/plugins/'' @ toString (id_arg a) @ ''/set?'') POST (opts a)
       [(204, true), (404, JStr ''plugin not found''), (500, JStr ''server error'')]"
| "Plugin_call Plugin_enable a =
     call0 (''/plugins/'' @ toString (id_arg a) @ ''/enable?'') POST (opts a)
       [(200, true), (500, JStr ''server error'')]"
| "Plugin_call Plugin_disable a =
     call0 (''/plugins/'' @ toString (id_arg a) @ ''/disable?'') POST (opts a)
       [(200, true), (500, JStr ''server error'')]"

subsection \<open>network.ts, node.ts, secret.ts\<close>

fun Network_call :: "network_op \<Rightarrow> obj \<Rightarrow> args \<Rightarrow> call" where
  "Network_call Network_status this a =
     call0 (''/networks/'' @ toString (obj_id this) @ ''?'') GET (opts a)
       [(200, true), (404, JStr ''no such network''), (500, JStr ''server error'')]"
| "Network_call Network_remove this a =
     call0 (''/networks/'' @ toString (obj_id this) @ ''?'') DELETE (opts a)
       [(204, true), (404, JStr ''no such network''), (500, JStr ''server error'')]"
| "Network_call Network_connect this a =
     call0 (''/networks/'' @ toString (obj_id this) @ ''/connect?'') POST (opts a)
       [(200, true), (403, JStr ''operation not supported for swarm scoped network''),
        (404, JStr ''network or container not found''), (500, JStr ''server error'')]"
| "Network_call Network_disconnect this a =
     call0 (''/networks/'' @ toString (obj_id this) @ ''/disconnect?'') POST (opts a)
       [(200, true), (403, JStr ''operation not supported for swarm scoped network''),
        (404, JStr ''network or container not found''), (500, JStr ''server error'')]"
| "Network_call NetworkManager_list this a =
     call0 ''/networks?'' GET (opts a) [(200, true), (500, JStr ''server error'')]"
| "Network_call NetworkManager_create this a =
     call0 ''/networks/create?'' POST (opts a)
       [(201, true), (404, JStr ''plugin not found''), (500, JStr ''server error'')]"
| "Network_call NetworkManager_prune this a =
     call0 ''/networks/prune'' POST (opts a) [(200, true), (500, JStr ''server error'')]"

fun Node_call :: "node_op \<Rightarrow> obj \<Rightarrow> args \<Rightarrow> call" where
  "Node_call Node_update this a =
     call0 (''/nodes/'' @ toString (obj_id this) @ ''/update?'') POST (opts a)
       [(200, true), (404, JStr ''no such node''), (500, JStr ''server error'')]"
| "Node_call Node_status this a =
     call0 (''/nodes/'' @ toString (obj_id this) @ ''?'') GET (opts a)
       [(200, true), (404, JStr ''no such node''), (500, JStr ''server error'')]"
| "Node_call Node_remove this a =
     call0 (''/nodes/'' @ toString (obj_id this) @ ''?'') DELETE (opts a)
       [(204, true), (404, JStr ''no such node''), (500, JStr ''server error'')]"
| "Node_call NodeManager_list this a =
     call0 ''/nodes?'' GET (opts a) [(200, true), (500, JStr ''server error'')]"

fun Secret_call :: "secret_op \<Rightarrow> obj \<Rightarrow> args \<Rightarrow> call" where
  "Secret_call Secret_status this a =
     call0 (''/secrets/'' @ toString (obj_id this) @ ''?'') GET (opts a)
       [(200, true), (404, JStr ''no such secret''),
        (406, JStr ''406 node is not part of a swarm''), (500, JStr ''server error'')]"
| "Secret_call Secret_remove this a =
     call0 (''/secrets/'' @ toString (obj_id this) @ ''?'') DELETE (opts a)
       [(204, true), (404, JStr ''no such secret''), (500, JStr ''server error'')]"
| "Secret_call SecretManager_list this a =
     call0 ''/secrets'' GET (opts a) [(200, true), (500, JStr ''server error'')]"
| "Secret_call SecretManager_create this a =
     call0 ''/secrets/create?'' POST (opts a)
       [(201, true), (406, JStr ''server error or node is not part of a swarm''),
        (409, JStr ''409 name conflicts with an existing  Record<string, unknown>''),
        (500, JStr ''server error'')]"

subsection \<open>service.ts, swarm.ts, task.ts, volume.ts\<close>

fun Service_call :: "service_op \<Rightarrow> obj \<Rightarrow> args \<Rightarrow> call" where
  "Service_call Service_update this a =
     (call0 (''/services/'' @ toString (obj_id this) @ ''/update?'') POST (opts a)
       [(200, true), (404, JStr ''no such service''), (500, JStr ''server error'')])
         \<lparr>authconfig := auth a\<rparr>"
| "Service_call Service_status this a =
     call0 (''/services/'' @ toString (obj_id this) @ ''?'') GET (opts a)
       [(200, true), (404, JStr ''no such service''), (500, JStr ''server error'')]"
| "Service_call Service_remove this a =
     call0 (''/services/'' @ toString (obj_id this) @ ''?'') DELETE (opts a)
       [(200, true), (404, JStr ''no such service''), (500, JStr ''server error'')]"
| "Service_call Service_logs this a =
     (call0 (''/services/'' @ toString (obj_id this) @ ''/logs?'') GET (opts a)
       [(101, true), (200, true), (404, JStr ''no such service''),
        (500, JStr ''server error''), (501, JStr ''use --experimental to see this''),
        (503, JStr ''node is not part of a swarm'')])
         \<lparr>isStream := true\<rparr>"
| "Service_call ServiceManager_create this a =
     (call0 ''/services/create?'' POST (opts a)
       [(201, true), (406, JStr ''node is not part of a swarm''),
        (409, JStr ''name conflicts'')])
         \<lparr>authconfig := auth a\<rparr>"
| "Service_call ServiceManager_list this a =
     call0 ''/services?'' GET (opts a) [(200, true), (500, JStr ''server error'')]"

fun Swarm_call :: "swarm_op \<Rightarrow> args \<Rightarrow> call" where
  "Swarm_call Swarm_init a =
     call0 ''/swarm/init?'' POST (opts a)
       [(200, true), (400, JStr ''bad parameter''),
        (406, JStr ''node is already part of a swarm'')]"
| "Swarm_call Swarm_status a =
     call0 ''/swarm?'' GET (opts a)
       [(200, true), (404, JStr ''no such swarm''), (500, JStr ''server error'')]"
| "Swarm_call Swarm_join a =
     call0 ''/swarm/join?'' POST (opts a)
       [(200, true), (400, JStr ''bad parameter''),
        (406, JStr ''node is already part of a swarm'')]"
| "Swarm_call Swarm_leave a =
     call0 ''/swarm/leave?'' POST (opts a)
       [(200, true), (406, JStr ''node is not part of a swarm'')]"
| "Swarm_call Swarm_update a =
     call0 ''/swarm/update?'' POST (opts a)
       [(200, true), (400, JStr ''bad parameter''),
        (406, JStr ''node is already part of a swarm'')]"

fun Task_call :: "task_op \<Rightarrow> obj \<Rightarrow> args \<Rightarrow> call" where
  "Task_call Task_status this a =
     call0 (''/tasks/'' @ toString (obj_id this) @ ''?'') GET (opts a)
       [(200, true), (404, JStr ''no such task''), (500, JStr ''server error'')]"
| "Task_call TaskManager_list this a =
     call0 ''/tasks?'' GET (opts a) [(200, true), (500, JStr ''server error'')]"

fun Volume_call :: "volume_op \<Rightarrow> obj \<Rightarrow> args \<Rightarrow> call" where
  "Volume_call Volume_status this a =
     call0 (''/volumes/'' @ toString (obj_id this) @ ''?'') GET (opts a)
       [(200, true), (404, JStr ''no such volume''), (500, JStr ''server error'')]"
| "Volume_call Volume_remove this a =
     call0 (''/volumes/'' @ toString (obj_id this) @ ''?'') DELETE (opts a)
       [(204, true), (404, JStr ''no such volume''), (409, JStr ''conflict''),
        (500, JStr ''server error'')]"
| "Volume_call VolumeManager_list this a =
     call0 ''/volumes'' GET (opts a) [(200, true), (500, JStr ''server error'')]"
| "Volume_call VolumeManager_create this a =
     call0 ''/volumes/create?'' POST (opts a) [(201, true), (500, JStr ''server error'')]"
| "Volume_call VolumeManager_prune this a =
     call0 ''/volumes/prune'' POST (opts a) [(200, true), (500, JStr ''server error'')]"

text \<open>
  The synchronous part of a method, before \<open>dial\<close>: the arguments as the callback
  will see them and the descriptor, or \<open>None\<close> when building it raises a TypeError.
\<close>

fun prepared :: "op \<Rightarrow> obj \<Rightarrow> args \<Rightarrow> args" where
  "prepared (PluginOp p) this a = Plugin_args p this a"
| "prepared _ this a = a"

fun descriptor :: "op \<Rightarrow> world \<Rightarrow> obj \<Rightarrow> args \<Rightarrow> call option" where
  "descriptor (DockerOp p) w this a = Some (Docker_call p a)"
| "descriptor (ExecOp p) w this a = Exec_call p (container_id w this) this a"
| "descriptor (FsOp p) w this a = ContainerFs_call p (container_id w this) a"
| "descriptor (ContainerOp p) w this a = Container_call p this a"
| "descriptor (ContainerManagerOp p) w this a = Some (ContainerManager_call p a)"
| "descriptor (ImageOp p) w this a = Some (Image_call p this a)"
| "descriptor (PluginOp p) w this a = Some (Plugin_call p (Plugin_args p this a))"
| "descriptor (NetworkOp p) w this a = Some (Network_call p this a)"
| "descriptor (NodeOp p) w this a = Some (Node_call p this a)"
| "descriptor (SecretOp p) w this a = Some (Secret_call p this a)"
| "descriptor (ServiceOp p) w this a = Some (Service_call p this a)"
| "descriptor (SwarmOp p) w this a = Some (Swarm_call p a)"
| "descriptor (TaskOp p) w this a = Some (Task_call p this a)"
| "descriptor (VolumeOp p) w this a = Some (Volume_call p this a)"

section \<open>The completion callbacks\<close>

text \<open>
  Every method ends in
  \<^verbatim>\<open>return await new Promise((resolve, reject) => { this.modem.dial(call, (err, res) => ...) })\<close>
  The definitions below are the bodies of these callbacks. Four shapes recur.
  \<open>pass\<close>: \<open>if (err) { reject(err); return }; resolve(res)\<close>.
  \<open>resolve_this\<close>: the same with \<open>resolve(this)\<close>.
  \<open>with_data mk conf\<close>: \<open>const h = new K(...); h.data = conf; resolve(h)\<close>.
  \<open>without_data mk\<close>: \<open>resolve(new K(...))\<close>.
\<close>

definition pass :: "jsval \<Rightarrow> jsval \<Rightarrow> world \<Rightarrow> outcome \<times> world" where
  "pass err res w = (if truthy err then (Rejected err, w) else (Resolved res, w))"

definition resolve_this :: "nat \<Rightarrow> jsval \<Rightarrow> world \<Rightarrow> outcome \<times> world" where
  "resolve_this this err w =
     (if truthy err then (Rejected err, w) else (Resolved (JRef this), w))"

definition with_data :: "(world \<Rightarrow> nat \<times> world) \<Rightarrow> jsval \<Rightarrow> world \<Rightarrow> outcome \<times> world" where
  "with_data mk conf w = (case mk w of (a, w') \<Rightarrow> (Resolved (JRef a), set_data a conf w'))"

definition without_data :: "(world \<Rightarrow> nat \<times> world) \<Rightarrow> world \<Rightarrow> outcome \<times> world" where
  "without_data mk w = (case mk w of (a, w') \<Rightarrow> (Resolved (JRef a), w'))"

text \<open>
  \<open>result.map((conf) => { const h = new K(this.modem, conf.F); h.data = conf; return h })\<close>.
  An array has \<open>map\<close>, and so has a stream in the Node versions the package is
  developed against (\<open>Readable.prototype.map\<close>, which returns a stream and calls
  the arrow function only when that is read); on anything else the call raises.
  \<open>element\<close> is the arrow function, which raises when \<open>conf\<close> is \<open>null\<close> or
  \<open>undefined\<close>; the handles built before that stay on the heap.
\<close>

definition element ::
  "(jsval \<Rightarrow> world \<Rightarrow> nat \<times> world) \<Rightarrow> string \<Rightarrow> jsval \<Rightarrow> world \<Rightarrow> nat option \<times> world" where
  "element mk f conf w =
     (case get_prop conf f of
        None \<Rightarrow> (None, w)
      | Some i \<Rightarrow> (case mk i w of (a, w') \<Rightarrow> (Some a, set_data a conf w')))"

fun map_elements ::
  "(jsval \<Rightarrow> world \<Rightarrow> nat option \<times> world) \<Rightarrow> jsval list \<Rightarrow> world
     \<Rightarrow> jsval list option \<times> world" where
  "map_elements f [] w = (Some [], w)"
| "map_elements f (conf # confs) w =
     (case f conf w of
        (None, w') \<Rightarrow> (None, w')
      | (Some a, w') \<Rightarrow>
          (case map_elements f confs w' of
             (None, w'') \<Rightarrow> (None, w'')
           | (Some hs, w'') \<Rightarrow> (Some (JRef a # hs), w'')))"

definition js_map ::
  "(jsval \<Rightarrow> world \<Rightarrow> nat option \<times> world) \<Rightarrow> jsval \<Rightarrow> world \<Rightarrow> outcome \<times> world" where
  "js_map f v w =
     (case v of
        JArr xs \<Rightarrow>
          (case map_elements f xs w of
             (None, w') \<Rightarrow> (Thrown JTypeError, w')
           | (Some hs, w') \<Rightarrow> (Resolved (JArr hs), w'))
      | JStream chunks ends \<Rightarrow> (Resolved_mapped (JStream chunks ends), w)
      | _ \<Rightarrow> (Thrown JTypeError, w))"

text \<open>\<open>v?.length\<close>: \<open>undefined\<close> when \<open>v\<close> is \<open>null\<close> or \<open>undefined\<close>.\<close>

definition opt_length :: "jsval \<Rightarrow> jsval" where
  "opt_length v = (case get_prop v ''length'' of None \<Rightarrow> JUndefined | Some l \<Rightarrow> l)"

text \<open>
  The list callbacks. ContainerManager, ImageManager and ServiceManager map the result
  unguarded; the others resolve \<open>[]\<close> first under
  \<open>!result?.length\<close> (network, node, task, plugin), \<open>!result.length\<close> (secret) or
  \<open>!result.Volumes?.length\<close> (volume).
\<close>

definition list_unguarded ::
  "(jsval \<Rightarrow> world \<Rightarrow> nat option \<times> world) \<Rightarrow> jsval \<Rightarrow> jsval \<Rightarrow> world \<Rightarrow> outcome \<times> world" where
  "list_unguarded f err res w = (if truthy err then (Rejected err, w) else js_map f res w)"

definition list_guarded ::
  "(jsval \<Rightarrow> world \<Rightarrow> nat option \<times> world) \<Rightarrow> jsval \<Rightarrow> jsval \<Rightarrow> world \<Rightarrow> outcome \<times> world" where
  "list_guarded f err res w =
     (if truthy err then (Rejected err, w)
      else if \<not> truthy (opt_length res) then (Resolved (JArr []), w)
      else js_map f res w)"

subsection \<open>docker.ts\<close>

fun Docker_callback :: "docker_op \<Rightarrow> jsval \<Rightarrow> jsval \<Rightarrow> world \<Rightarrow> outcome \<times> world" where
  "Docker_callback p err res w = pass err res w"

subsection \<open>container.ts\<close>

text \<open>\<open>Exec.create\<close>, \<open>Exec.status\<close> and \<open>ExecManager.create\<close> all build the handle from \<open>conf.Id\<close>.\<close>

definition Exec_from_conf :: "obj \<Rightarrow> jsval \<Rightarrow> jsval \<Rightarrow> world \<Rightarrow> outcome \<times> world" where
  "Exec_from_conf this err conf w =
     (if truthy err then (Rejected err, w)
      else (case get_prop conf ''Id'' of
              None \<Rightarrow> (Thrown JTypeError, w)
            | Some i \<Rightarrow> with_data (new_Exec (modem this) (container this) i) conf w))"

fun Exec_callback :: "exec_op \<Rightarrow> obj \<Rightarrow> jsval \<Rightarrow> jsval \<Rightarrow> world \<Rightarrow> outcome \<times> world" where
  "Exec_callback Exec_create this err res w = Exec_from_conf this err res w"
| "Exec_callback Exec_start this err res w = pass err res w"
| "Exec_callback Exec_resize this err res w = pass err res w"
| "Exec_callback Exec_status this err res w = Exec_from_conf this err res w"
| "Exec_callback ExecManager_create this err res w = Exec_from_conf this err res w"

fun ContainerFs_callback :: "fs_op \<Rightarrow> jsval \<Rightarrow> jsval \<Rightarrow> world \<Rightarrow> outcome \<times> world" where
  "ContainerFs_callback p err res w = pass err res w"

text \<open>
  \<open>export\<close>:
  \<^verbatim>\<open>
    if (err) { reject(err); return }
    if (!opts.stream) { resolve(tarStream); return }
    const res = []
    tarStream.on('data', (chunk) => { return res.push(chunk.toString()) })
    tarStream.on('end', () => { resolve(res.join('')) })
  \<close>
  Only a stream has \<open>on\<close>; the promise resolves when the stream ends.
\<close>

definition export_callback :: "jsval \<Rightarrow> jsval \<Rightarrow> jsval \<Rightarrow> world \<Rightarrow> outcome \<times> world" where
  "export_callback stream err tarStream w =
     (if truthy err then (Rejected err, w)
      else if \<not> truthy stream then (Resolved tarStream, w)
      else (case tarStream of
              JStream chunks ends \<Rightarrow>
                if ends then (Resolved (JStr (concat chunks)), w) else (Pending, w)
            | _ \<Rightarrow> (Thrown JTypeError, w)))"

text \<open>
  \<open>update\<close> builds the new container and stores the warnings before it looks at \<open>err\<close>:
  \<^verbatim>\<open>
    const container = new Container(this.modem, this.id)
    container.Warnings = warnings
    if (err) { reject(err); return }
    resolve(container)
  \<close>
\<close>

definition update_callback :: "obj \<Rightarrow> jsval \<Rightarrow> jsval \<Rightarrow> world \<Rightarrow> outcome \<times> world" where
  "update_callback this err warnings w =
     (case new_Container (modem this) (obj_id this) w of
        (a, w') \<Rightarrow>
          (if truthy err then (Rejected err, set_Warnings a warnings w')
           else (Resolved (JRef a), set_Warnings a warnings w')))"

text \<open>
  \<open>commit\<close>: \<open>resolve(new Image(this.modem, res.Id.replace('sha256:', '')))\<close>. Only a
  string has \<open>replace\<close>.
\<close>

definition commit_callback :: "obj \<Rightarrow> jsval \<Rightarrow> jsval \<Rightarrow> world \<Rightarrow> outcome \<times> world" where
  "commit_callback this err res w =
     (if truthy err then (Rejected err, w)
      else (case get_prop res ''Id'' of
              Some (JStr s) \<Rightarrow>
                without_data
                  (new_handle Image (modem this) (JStr (replace_first ''sha256:'' s))) w
            | _ \<Rightarrow> (Thrown JTypeError, w)))"

fun Container_callback ::
  "container_op \<Rightarrow> nat \<Rightarrow> obj \<Rightarrow> args \<Rightarrow> jsval \<Rightarrow> jsval \<Rightarrow> world \<Rightarrow> outcome \<times> world" where
  "Container_callback Container_status t this a err res w =
     (if truthy err then (Rejected err, w)
      else with_data (new_Container (modem this) (obj_id this)) res w)"
| "Container_callback Container_top t this a err res w = pass err res w"
| "Container_callback Container_logs t this a err res w = pass err res w"
| "Container_callback Container_changes t this a err res w = pass err res w"
| "Container_callback Container_export t this a err res w =
     (case get_prop (dflt (opts a)) ''stream'' of
        None \<Rightarrow> (Thrown JTypeError, w)
      | Some s \<Rightarrow> export_callback s err res w)"
| "Container_callback Container_stats t this a err res w = pass err res w"
| "Container_callback Container_resize t this a err res w = pass err res w"
| "Container_callback Container_start t this a err res w = resolve_this t err w"
| "Container_callback Container_stop t this a err res w = resolve_this t err w"
| "Container_callback Container_restart t this a err res w = resolve_this t err w"
| "Container_callback Container_kill t this a err res w = resolve_this t err w"
| "Container_callback Container_update t this a err res w = update_callback this err res w"
| "Container_callback Container_rename t this a err res w = resolve_this t err w"
| "Container_callback Container_pause t this a err res w = resolve_this t err w"
| "Container_callback Container_unpause t this a err res w = resolve_this t err w"
| "Container_callback Container_attach t this a err res w =
     (if truthy err then (Rejected err, w) else (Resolved (JArr [res, JRef t]), w))"
| "Container_callback Container_wsattach t this a err res w =
     (if truthy err then (Rejected err, w) else (Resolved (JArr [res, JRef t]), w))"
| "Container_callback Container_wait t this a err res w = pass err res w"
| "Container_callback Container_delete t this a err res w = pass err res w"
| "Container_callback Container_commit t this a err res w = commit_callback this err res w"

fun ContainerManager_callback ::
  "containermanager_op \<Rightarrow> obj \<Rightarrow> jsval \<Rightarrow> jsval \<Rightarrow> world \<Rightarrow> outcome \<times> world" where
  "ContainerManager_callback ContainerManager_list this err res w =
     list_unguarded (element (new_Container (modem this)) ''Id'') err res w"
| "ContainerManager_callback ContainerManager_create this err res w =
     (if truthy err then (Rejected err, w)
      else (case get_prop res ''Id'' of
              None \<Rightarrow> (Thrown JTypeError, w)
            | Some i \<Rightarrow> with_data (new_Container (modem this) i) res w))"
| "ContainerManager_callback ContainerManager_prune this err res w = pass err res w"

subsection \<open>image.ts\<close>

text \<open>
  \<open>tag\<close> resolves its promise with \<open>new Image(this.modem, this.id)\<close> and chains
  \<open>.then(async (image) => await image.status())\<close>; the chained call is made in \<open>run\<close>.
\<close>

fun Image_callback :: "image_op \<Rightarrow> obj \<Rightarrow> jsval \<Rightarrow> jsval \<Rightarrow> world \<Rightarrow> outcome \<times> world" where
  "Image_callback Image_status this err res w =
     (if truthy err then (Rejected err, w)
      else with_data (new_handle Image (modem this) (obj_id this)) res w)"
| "Image_callback Image_tag this err res w =
     (if truthy err then (Rejected err, w)
      else without_data (new_handle Image (modem this) (obj_id this)) w)"
| "Image_callback ImageManager_list this err res w =
     list_unguarded (element (new_handle Image (modem this)) ''Id'') err res w"
| "Image_callback p this err res w = pass err res w"

subsection \<open>plugin.ts\<close>

definition plugin_element :: "obj \<Rightarrow> jsval \<Rightarrow> world \<Rightarrow> nat option \<times> world" where
  "plugin_element this conf w =
     (case get_prop conf ''Id'' of
        None \<Rightarrow> (None, w)
      | Some i \<Rightarrow>
          (case new_Plugin (modem this) i w of (a, w') \<Rightarrow> (Some a, Object_assign a conf w')))"

text \<open>\<open>upgrade\<close>, \<open>create\<close> and \<open>install\<close>: \<open>resolve(new Plugin(this.modem, opts.name))\<close>.\<close>

definition Plugin_named :: "obj \<Rightarrow> args \<Rightarrow> jsval \<Rightarrow> world \<Rightarrow> outcome \<times> world" where
  "Plugin_named this a err w =
     (if truthy err then (Rejected err, w)
      else (case get_prop (opts a) ''name'' of
              None \<Rightarrow> (Thrown JTypeError, w)
            | Some n \<Rightarrow> without_data (new_Plugin (modem this) n) w))"

text \<open>\<open>push\<close>, \<open>set\<close>, \<open>enable\<close> and \<open>disable\<close>: \<open>resolve(new Plugin(this.modem, id))\<close>.\<close>

definition Plugin_same :: "obj \<Rightarrow> args \<Rightarrow> jsval \<Rightarrow> world \<Rightarrow> outcome \<times> world" where
  "Plugin_same this a err w =
     (if truthy err then (Rejected err, w)
      else without_data (new_Plugin (modem this) (id_arg a)) w)"

fun Plugin_callback ::
  "plugin_op \<Rightarrow> obj \<Rightarrow> args \<Rightarrow> jsval \<Rightarrow> jsval \<Rightarrow> world \<Rightarrow> outcome \<times> world" where
  "Plugin_callback Plugin_list this a err res w =
     list_guarded (plugin_element this) err res w"
| "Plugin_callback Plugin_upgrade this a err res w = Plugin_named this a err w"
| "Plugin_callback Plugin_create this a err res w = Plugin_named this a err w"
| "Plugin_callback Plugin_install this a err res w = Plugin_named this a err w"
| "Plugin_callback Plugin_status this a err res w =
     (if truthy err then (Rejected err, w)
      else (case new_Plugin (modem this) (id_arg a) w of
              (p, w') \<Rightarrow> (Resolved (JRef p), Object_assign p res w')))"
| "Plugin_callback Plugin_remove this a err res w = pass err res w"
| "Plugin_callback Plugin_push this a err res w = Plugin_same this a err w"
| "Plugin_callback Plugin_set this a err res w = Plugin_same this a err w"
| "Plugin_callback Plugin_enable this a err res w = Plugin_same this a err w"
| "Plugin_callback Plugin_disable this a err res w = Plugin_same this a err w"

subsection \<open>network.ts, node.ts, secret.ts\<close>

text \<open>\<open>status\<close>, \<open>update\<close>, \<open>connect\<close> and \<open>disconnect\<close> of a handle of class \<open>k\<close>.\<close>

definition same_id :: "cls \<Rightarrow> obj \<Rightarrow> jsval \<Rightarrow> jsval \<Rightarrow> world \<Rightarrow> outcome \<times> world" where
  "same_id k this err conf w =
     (if truthy err then (Rejected err, w)
      else with_data (new_handle k (modem this) (obj_id this)) conf w)"

text \<open>\<open>create\<close> of a manager: the identifier is the field \<open>f\<close> of the response.\<close>

definition from_conf :: "cls \<Rightarrow> string \<Rightarrow> obj \<Rightarrow> jsval \<Rightarrow> jsval \<Rightarrow> world \<Rightarrow> outcome \<times> world" where
  "from_conf k f this err conf w =
     (if truthy err then (Rejected err, w)
      else (case get_prop conf f of
              None \<Rightarrow> (Thrown JTypeError, w)
            | Some i \<Rightarrow> with_data (new_handle k (modem this) i) conf w))"

fun Network_callback :: "network_op \<Rightarrow> obj \<Rightarrow> jsval \<Rightarrow> jsval \<Rightarrow> world \<Rightarrow> outcome \<times> world" where
  "Network_callback Network_status this err res w = same_id Network this err res w"
| "Network_callback Network_remove this err res w = pass err res w"
| "Network_callback Network_connect this err res w = same_id Network this err res w"
| "Network_callback Network_disconnect this err res w = same_id Network this err res w"
| "Network_callback NetworkManager_list this err res w =
     list_guarded (element (new_handle Network (modem this)) ''Id'') err res w"
| "Network_callback NetworkManager_create this err res w =
     from_conf Network ''Id'' this err res w"
| "Network_callback NetworkManager_prune this err res w = pass err res w"

fun Node_callback :: "node_op \<Rightarrow> obj \<Rightarrow> jsval \<Rightarrow> jsval \<Rightarrow> world \<Rightarrow> outcome \<times> world" where
  "Node_callback Node_update this err res w = same_id Node this err res w"
| "Node_callback Node_status this err res w = same_id Node this err res w"
| "Node_callback Node_remove this err res w = pass err res w"
| "Node_callback NodeManager_list this err res w =
     list_guarded (element (new_handle Node (modem this)) ''ID'') err res w"

fun Secret_callback :: "secret_op \<Rightarrow> obj \<Rightarrow> jsval \<Rightarrow> jsval \<Rightarrow> world \<Rightarrow> outcome \<times> world" where
  "Secret_callback Secret_status this err res w = same_id Secret this err res w"
| "Secret_callback Secret_remove this err res w = pass err res w"
| "Secret_callback SecretManager_list this err res w =
     (if truthy err then (Rejected err, w)
      else (case get_prop res ''length'' of
              None \<Rightarrow> (Thrown JTypeError, w)
            | Some l \<Rightarrow>
                if \<not> truthy l then (Resolved (JArr []), w)
                else js_map (element (new_handle Secret (modem this)) ''Name'') res w))"
| "Secret_callback SecretManager_create this err res w =
     from_conf Secret ''ID'' this err res w"

subsection \<open>service.ts, swarm.ts, task.ts, volume.ts\<close>

fun Service_callback :: "service_op \<Rightarrow> obj \<Rightarrow> jsval \<Rightarrow> jsval \<Rightarrow> world \<Rightarrow> outcome \<times> world" where
  "Service_callback Service_update this err res w = same_id Service this err res w"
| "Service_callback Service_status this err res w = same_id Service this err res w"
| "Service_callback Service_remove this err res w = pass err res w"
| "Service_callback Service_logs this err res w = pass err res w"
| "Service_callback ServiceManager_create this err res w =
     from_conf Service ''ID'' this err res w"
| "Service_callback ServiceManager_list this err res w =
     list_unguarded (element (new_handle Service (modem this)) ''ID'') err res w"

fun Swarm_callback :: "swarm_op \<Rightarrow> obj \<Rightarrow> jsval \<Rightarrow> jsval \<Rightarrow> world \<Rightarrow> outcome \<times> world" where
  "Swarm_callback Swarm_init this err res w =
     (if truthy err then (Rejected err, w)
      else without_data (new_handle Node (modem this) res) w)"
| "Swarm_callback Swarm_status this err res w =
     (if truthy err then (Rejected err, w) else with_data (new_Swarm (modem this)) res w)"
| "Swarm_callback Swarm_join this err res w = pass err res w"
| "Swarm_callback Swarm_leave this err res w = pass err res w"
| "Swarm_callback Swarm_update this err res w = pass err res w"

fun Task_callback :: "task_op \<Rightarrow> obj \<Rightarrow> jsval \<Rightarrow> jsval \<Rightarrow> world \<Rightarrow> outcome \<times> world" where
  "Task_callback Task_status this err res w = same_id Task this err res w"
| "Task_callback TaskManager_list this err res w =
     list_guarded (element (new_handle Task (modem this)) ''ID'') err res w"

fun Volume_callback :: "volume_op \<Rightarrow> obj \<Rightarrow> jsval \<Rightarrow> jsval \<Rightarrow> world \<Rightarrow> outcome \<times> world" where
  "Volume_callback Volume_status this err res w = same_id Volume this err res w"
| "Volume_callback Volume_remove this err res w = pass err res w"
| "Volume_callback VolumeManager_list this err res w =
     (if truthy err then (Rejected err, w)
      else (case get_prop res ''Volumes'' of
              None \<Rightarrow> (Thrown JTypeError, w)
            | Some vs \<Rightarrow>
                if \<not> truthy (opt_length vs) then (Resolved (JArr []), w)
                else js_map (element (new_handle Volume (modem this)) ''Name'') vs w))"
| "Volume_callback VolumeManager_create this err res w =
     (if truthy err then (Rejected err, w)
      else (case get_prop res ''Name'' of
              None \<Rightarrow> (Thrown JTypeError, w)
            | Some n \<Rightarrow> without_data (new_handle Volume (modem this) n) w))"
| "Volume_callback VolumeManager_prune this err res w = pass err res w"

section \<open>Running an operation\<close>

text \<open>
  \<open>callback op t a err res w\<close> is the completion callback of \<open>op\<close> on the receiver at
  address \<open>t\<close>, with the arguments \<open>a\<close> as the method body left them.
\<close>

fun callback :: "op \<Rightarrow> nat \<Rightarrow> args \<Rightarrow> jsval \<Rightarrow> jsval \<Rightarrow> world \<Rightarrow> outcome \<times> world" where
  "callback (DockerOp p) t a err res w = Docker_callback p err res w"
| "callback (ExecOp p) t a err res w = Exec_callback p (heap w ! t) err res w"
| "callback (FsOp p) t a err res w = ContainerFs_callback p err res w"
| "callback (ContainerOp p) t a err res w = Container_callback p t (heap w ! t) a err res w"
| "callback (ContainerManagerOp p) t a err res w =
     ContainerManager_callback p (heap w ! t) err res w"
| "callback (ImageOp p) t a err res w = Image_callback p (heap w ! t) err res w"
| "callback (PluginOp p) t a err res w = Plugin_callback p (heap w ! t) a err res w"
| "callback (NetworkOp p) t a err res w = Network_callback p (heap w ! t) err res w"
| "callback (NodeOp p) t a err res w = Node_callback p (heap w ! t) err res w"
| "callback (SecretOp p) t a err res w = Secret_callback p (heap w ! t) err res w"
| "callback (ServiceOp p) t a err res w = Service_callback p (heap w ! t) err res w"
| "callback (SwarmOp p) t a err res w = Swarm_callback p (heap w ! t) err res w"
| "callback (TaskOp p) t a err res w = Task_callback p (heap w ! t) err res w"
| "callback (VolumeOp p) t a err res w = Volume_callback p (heap w ! t) err res w"

text \<open>
  An exception that the completion callback raises travels up to whoever invoked the
  callback. When the transport did so from within \<open>dial\<close>, it travels on through
  \<open>dial\<close> to the executor of \<open>new Promise\<close>, which rejects the promise with it (a
  callback raises before it settles anything). When the transport did so later, the
  promise is left as it is.
\<close>

definition settle :: "bool \<Rightarrow> outcome \<times> world \<Rightarrow> outcome \<times> world" where
  "settle sync r =
     (case r of
        (Thrown e, w) \<Rightarrow> if sync then (Rejected e, w) else (Thrown e, w)
      | _ \<Rightarrow> r)"

text \<open>
  One method call that dials once. A receiver that is not on the heap cannot be called.
  A TypeError while the descriptor is built, or a \<open>this.modem\<close> that is no transport,
  rejects the promise of the \<open>async\<close> method without a dial. Otherwise the descriptor is
  handed to the transport, and the callback runs if the transport calls back.
\<close>

definition run1 :: "transport \<Rightarrow> op \<Rightarrow> nat \<Rightarrow> args \<Rightarrow> world \<Rightarrow> outcome \<times> world" where
  "run1 T p t a w =
     (if \<not> t < length (heap w) then (Thrown JTypeError, w)
      else (case descriptor p w (heap w ! t) a of
              None \<Rightarrow> (Rejected JTypeError, w)
            | Some c \<Rightarrow>
                (case modem (heap w ! t) of
                   JModem m \<Rightarrow>
                     (case dial T m c of
                        None \<Rightarrow> (Pending, w\<lparr>dialed := dialed w @ [c]\<rparr>)
                      | Some (err, res) \<Rightarrow>
                          settle (within T m c)
                            (callback p t (prepared p (heap w ! t) a) err res
                              (w\<lparr>dialed := dialed w @ [c]\<rparr>)))
                 | _ \<Rightarrow> (Rejected JTypeError, w))))"

text \<open>
  A method call. \<open>Image.tag\<close> follows its dial with \<open>status()\<close> on the image it built;
  every other method is one dial.
\<close>

definition run :: "transport \<Rightarrow> op \<Rightarrow> nat \<Rightarrow> args \<Rightarrow> world \<Rightarrow> outcome \<times> world" where
  "run T p t a w =
     (if p = ImageOp Image_tag then
        (case run1 T p t a w of
           (Resolved (JRef i), w') \<Rightarrow> run1 T (ImageOp Image_status) i no_args w'
         | r \<Rightarrow> r)
      else run1 T p t a w)"

section \<open>The synchronous \<open>get(id)\<close> of the managers\<close>

text \<open>
  ContainerManager, ImageManager, NetworkManager, NodeManager, SecretManager,
  ServiceManager, TaskManager and VolumeManager have \<open>get (id) { return new K(this.modem, id) }\<close>,
  ExecManager has \<open>get (id) { return new Exec(this.modem, this.container, id) }\<close>.
  \<open>None\<close>: the receiver is not on the heap or its class has no such method.
\<close>

definition Manager_get :: "nat \<Rightarrow> jsval \<Rightarrow> world \<Rightarrow> (nat \<times> world) option" where
  "Manager_get m i w =
     (if \<not> m < length (heap w) then None
      else (case cls (heap w ! m) of
              ContainerManager \<Rightarrow> Some (new_Container (modem (heap w ! m)) i w)
            | ExecManager \<Rightarrow>
                Some (new_Exec (modem (heap w ! m)) (container (heap w ! m)) i w)
            | ImageManager \<Rightarrow> Some (new_handle Image (modem (heap w ! m)) i w)
            | NetworkManager \<Rightarrow> Some (new_handle Network (modem (heap w ! m)) i w)
            | NodeManager \<Rightarrow> Some (new_handle Node (modem (heap w ! m)) i w)
            | SecretManager \<Rightarrow> Some (new_handle Secret (modem (heap w ! m)) i w)
            | ServiceManager \<Rightarrow> Some (new_handle Service (modem (heap w ! m)) i w)
            | TaskManager \<Rightarrow> Some (new_handle Task (modem (heap w ! m)) i w)
            | VolumeManager \<Rightarrow> Some (new_handle Volume (modem (heap w ! m)) i w)
            | _ \<Rightarrow> None))"

section \<open>Notions used in the statements\<close>

text \<open>Worlds and transports for the concrete instances.\<close>

definition manager :: "cls \<Rightarrow> world" where
  "manager k = \<lparr>heap = [(blank k)\<lparr>modem := JModem 0\<rparr>], dialed = []\<rparr>"

definition a_container :: world where
  "a_container = snd (new_Container (JModem 0) (JStr ''c1'') \<lparr>heap = [], dialed = []\<rparr>)"

text \<open>
  \<open>replies err res\<close> calls back with \<open>(err, res)\<close> after \<open>dial\<close> has returned,
  \<open>replies_within err res\<close> before.
\<close>

definition replies :: "jsval \<Rightarrow> jsval \<Rightarrow> transport" where
  "replies err res = \<lparr>dial = (\<lambda>m c. Some (err, res)), within = (\<lambda>m c. False)\<rparr>"

definition replies_within :: "jsval \<Rightarrow> jsval \<Rightarrow> transport" where
  "replies_within err res = \<lparr>dial = (\<lambda>m c. Some (err, res)), within = (\<lambda>m c. True)\<rparr>"

text \<open>The manager classes that have a synchronous \<open>get(id)\<close>, and the class it builds.\<close>

definition has_get :: "cls \<Rightarrow> bool" where
  "has_get k = (k \<in> {ContainerManager, ExecManager, ImageManager, NetworkManager, NodeManager,
      SecretManager, ServiceManager, TaskManager, VolumeManager})"

fun handle_of :: "cls \<Rightarrow> cls" where
  "handle_of ContainerManager = Container"
| "handle_of ExecManager = Exec"
| "handle_of ImageManager = Image"
| "handle_of NetworkManager = Network"
| "handle_of NodeManager = Node"
| "handle_of SecretManager = Secret"
| "handle_of ServiceManager = Service"
| "handle_of TaskManager = Task"
| "handle_of VolumeManager = Volume"
| "handle_of k = k"

text \<open>The container actions whose callback ends in \<open>resolve(this)\<close>.\<close>

definition resolves_this :: "container_op \<Rightarrow> bool" where
  "resolves_this p = (p \<in> {Container_start, Container_stop, Container_restart, Container_kill,
      Container_pause, Container_unpause, Container_rename})"

text \<open>
  The plugin methods that pass \<open>(opts, id)\<close> to \<open>__processArguments\<close>, and what each
  appends to \<open>/plugins/${id}\<close> (\<open>upgrade\<close>, which passes \<open>opts\<close> alone, included).
\<close>

definition takes_id :: "plugin_op \<Rightarrow> bool" where
  "takes_id p = (p \<in> {Plugin_status, Plugin_remove, Plugin_push, Plugin_set, Plugin_enable,
      Plugin_disable})"

fun plugin_suffix :: "plugin_op \<Rightarrow> string" where
  "plugin_suffix Plugin_upgrade = ''/upgrade?''"
| "plugin_suffix Plugin_push = ''/push?''"
| "plugin_suffix Plugin_set = ''/set?''"
| "plugin_suffix Plugin_enable = ''/enable?''"
| "plugin_suffix Plugin_disable = ''/disable?''"
| "plugin_suffix p = ''?''"

text \<open>The identifier \<open>__processArguments\<close> settles on, case by case.\<close>

definition chosen_id :: "obj \<Rightarrow> jsval \<Rightarrow> jsval \<Rightarrow> jsval" where
  "chosen_id this os i =
     (if truthy i then i
      else if is_string os \<and> truthy os then os
      else if truthy (obj_id this) then obj_id this
      else if is_string os then os
      else i)"

text \<open>The operations that remove a resource: \<open>delete\<close> of a container, \<open>remove\<close> elsewhere.\<close>

definition remove_ops :: "op list" where
  "remove_ops =
     [ContainerOp Container_delete, ImageOp Image_remove, PluginOp Plugin_remove,
      NetworkOp Network_remove, NodeOp Node_remove, SecretOp Secret_remove,
      ServiceOp Service_remove, VolumeOp Volume_remove]"

text \<open>The operations whose path is written without any \<open>?\<close>.\<close>

definition no_placeholder :: "op list" where
  "no_placeholder =
     [ContainerManagerOp ContainerManager_prune, ImageOp ImageManager_prune,
      NetworkOp NetworkManager_prune, VolumeOp VolumeManager_prune,
      VolumeOp VolumeManager_list, SecretOp SecretManager_list]"

text \<open>
  The \<open>status\<close> operations that rebuild the handle from \<open>this.id\<close>, with the class of
  the handle; and all the \<open>status\<close> operations.
\<close>

definition status_ops :: "(op \<times> cls) list" where
  "status_ops =
     [(ContainerOp Container_status, Container), (ImageOp Image_status, Image),
      (NetworkOp Network_status, Network), (NodeOp Node_status, Node),
      (SecretOp Secret_status, Secret), (ServiceOp Service_status, Service),
      (TaskOp Task_status, Task), (VolumeOp Volume_status, Volume)]"

definition all_status :: "op list" where
  "all_status =
     map fst status_ops @ [ExecOp Exec_status, PluginOp Plugin_status, SwarmOp Swarm_status]"




fun ended :: "jsval \<Rightarrow> bool" where
  "ended (JStream chunks ends) = ends"
| "ended _ = False"




text \<open>A plugin handle with an identifier, alone on the heap.\<close>

definition a_plugin :: world where
  "a_plugin = snd (new_Plugin (JModem 0) (JStr ''p1'') \<lparr>heap = [], dialed = []\<rparr>)"

section \<open>Properties\<close>

lemmas ctor_defs = new_Container_def new_handle_def new_Exec_def new_Plugin_def new_Swarm_def
  alloc_def blank_def set_data_def set_Warnings_def

lemma run1_dial:
  assumes "t < length (heap w)" and "modem (heap w ! t) = JModem m"
    and "descriptor p w (heap w ! t) a = Some c" and "dial T m c = Some (err, res)"
  shows "run1 T p t a w
    = settle (within T m c)
        (callback p t (prepared p (heap w ! t) a) err res (w\<lparr>dialed := dialed w @ [c]\<rparr>))"
  using assms by (simp add: run1_def)

lemma settle_simps [simp]:
  "settle b (Resolved v, w) = (Resolved v, w)"
  "settle b (Resolved_mapped v, w) = (Resolved_mapped v, w)"
  "settle b (Rejected e, w) = (Rejected e, w)"
  "settle b (Pending, w) = (Pending, w)"
  "settle b (Thrown e, w) = (if b then Rejected e else Thrown e, w)"
  by (simp_all add: settle_def)

lemma snd_settle [simp]: "snd (settle b r) = snd r"
  by (cases r) (simp add: settle_def split: outcome.splits)



lemma run_single: "p \<noteq> ImageOp Image_tag \<Longrightarrow> run T p t a w = run1 T p t a w"
  by (simp add: run_def)

subsection \<open>Listing a collection\<close>

lemma map_elements_length:
  "map_elements f xs w = (Some hs, w') \<Longrightarrow> length hs = length xs"
proof (induction xs arbitrary: w hs)
  case Nil
  then show ?case by simp
next
  case (Cons conf confs)
  then show ?case
    by (auto split: prod.splits option.splits)
qed

lemma list_guarded_missing:
  assumes "\<not> truthy err" and "res = JNull \<or> res = JUndefined \<or> res = JArr []"
  shows "list_guarded f err res w = (Resolved (JArr []), w)"
  using assms by (auto simp: list_guarded_def opt_length_def)

lemma list_unguarded_missing:
  assumes "\<not> truthy err" and "res = JNull \<or> res = JUndefined"
  shows "list_unguarded f err res w = (Thrown JTypeError, w)"
  using assms by (auto simp: list_unguarded_def js_map_def)

lemma list_unguarded_empty:
  assumes "\<not> truthy err"
  shows "list_unguarded f err (JArr []) w = (Resolved (JArr []), w)"
  using assms by (simp add: list_unguarded_def js_map_def)

text \<open>
  C1. Every manager's \<open>list()\<close> should resolve with the empty sequence when the
  transport completes without error and delivers no result. \<open>ContainerManager.list\<close>
  does not, and neither do \<open>ImageManager.list\<close> and \<open>ServiceManager.list\<close>: on the
  reply \<open>(null, null)\<close> the callback calls \<open>map\<close> on \<open>null\<close>, the TypeError escapes
  from the callback and nothing is resolved. The sibling \<open>TaskManager.list\<close>, which
  tests \<open>!result?.length\<close> first, resolves with \<open>[]\<close> on the same reply.
\<close>

theorem ContainerManager_list_missing_result:
  "fst (run (replies JNull JNull) (ContainerManagerOp ContainerManager_list) 0 no_args
          (manager ContainerManager))
     = Thrown JTypeError
   \<and> fst (run (replies JNull JNull) (ImageOp ImageManager_list) 0 no_args
          (manager ImageManager))
     = Thrown JTypeError
   \<and> fst (run (replies JNull JNull) (ServiceOp ServiceManager_list) 0 no_args
          (manager ServiceManager))
     = Thrown JTypeError
   \<and> fst (run (replies JNull JNull) (TaskOp TaskManager_list) 0 no_args (manager TaskManager))
     = Resolved (JArr [])"
  by (simp add: run_def run1_def replies_def manager_def no_args_def blank_def call0_def
      list_unguarded_def list_guarded_def js_map_def opt_length_def)

subsection \<open>Container actions\<close>

text \<open>
  C4, as amended. After a successful \<open>start\<close>, \<open>stop\<close>, \<open>restart\<close>, \<open>kill\<close>, \<open>pause\<close>,
  \<open>unpause\<close> or \<open>rename\<close> the promise resolves with the receiver itself and the heap is
  as before. A successful \<open>update\<close> resolves with a container built for the occasion, at
  a fresh address: it has the receiver's identifier and transport, the response as its
  \<open>Warnings\<close> and no snapshot, and the receiver is untouched.
\<close>

theorem container_actions_resolve_receiver:
  assumes "t < length (heap w)" and "modem (heap w ! t) = JModem m"
    and "Container_call p (heap w ! t) a = Some c" and "dial T m c = Some (err, res)"
    and "\<not> truthy err"
  shows "(resolves_this p \<longrightarrow>
            run T (ContainerOp p) t a w = (Resolved (JRef t), w\<lparr>dialed := dialed w @ [c]\<rparr>))
       \<and> (p = Container_update \<longrightarrow>
            (\<exists>w'. run T (ContainerOp p) t a w = (Resolved (JRef (length (heap w))), w')
               \<and> length (heap w) \<noteq> t
               \<and> take (length (heap w)) (heap w') = heap w
               \<and> cls (heap w' ! length (heap w)) = Container
               \<and> obj_id (heap w' ! length (heap w)) = obj_id (heap w ! t)
               \<and> modem (heap w' ! length (heap w)) = modem (heap w ! t)
               \<and> Warnings (heap w' ! length (heap w)) = res
               \<and> data (heap w' ! length (heap w)) = JUndefined))"
proof -
  have d: "descriptor (ContainerOp p) w (heap w ! t) a = Some c"
    using assms(3) by simp
  have r: "run T (ContainerOp p) t a w
      = settle (within T m c)
          (Container_callback p t (heap w ! t) a err res (w\<lparr>dialed := dialed w @ [c]\<rparr>))"
    using run1_dial [of t w m "ContainerOp p" a c T err res, OF assms(1,2) d assms(4)]
    by (simp add: run_single)
  show ?thesis
    using assms(1,5) unfolding r
    by (auto simp: resolves_this_def resolve_this_def update_callback_def ctor_defs Let_def
        nth_append)
qed

theorem container_actions_resolve_receiver_witness:
  "run (replies JNull JNull) (ContainerOp Container_stop) 0 no_args a_container
     = (Resolved (JRef 0),
        a_container\<lparr>dialed := [call0 ''/containers/c1/stop?'' POST JUndefined
          [(204, true), (304, true), (404, JStr ''no such container''),
           (500, JStr ''server error'')]]\<rparr>)
   \<and> (\<exists>w'. run (replies JNull (JArr [])) (ContainerOp Container_update) 0 no_args a_container
              = (Resolved (JRef 3), w')
          \<and> cls (heap w' ! 3) = Container
          \<and> obj_id (heap w' ! 3) = JStr ''c1''
          \<and> Warnings (heap w' ! 3) = JArr [])"
  using container_actions_resolve_receiver [of 0 a_container 0 Container_stop no_args
      "call0 ''/containers/c1/stop?'' POST JUndefined
          [(204, true), (304, true), (404, JStr ''no such container''),
           (500, JStr ''server error'')]" "replies JNull JNull" JNull JNull]
    container_actions_resolve_receiver [of 0 a_container 0 Container_update no_args
      "call0 ''/containers/c1/update?'' POST JUndefined
          [(200, true), (400, JStr ''bad request''), (404, JStr ''no such container''),
           (500, JStr ''server error'')]" "replies JNull (JArr [])" JNull "JArr []"]
  by (auto simp: a_container_def replies_def no_args_def ctor_defs Let_def resolves_this_def
      numeral_3_eq_3)

text \<open>
  C4 as stated fails at \<open>update\<close>: on the container at address 0 it resolves with the
  object at address 3, while \<open>start\<close> resolves with the receiver.
\<close>

theorem container_update_counterexample:
  "fst (run (replies JNull (JArr [])) (ContainerOp Container_update) 0 no_args a_container)
     = Resolved (JRef 3)
   \<and> Resolved (JRef 3) \<noteq> Resolved (JRef 0)
   \<and> fst (run (replies JNull JNull) (ContainerOp Container_start) 0 no_args a_container)
     = Resolved (JRef 0)"
  by (simp add: run_def run1_def a_container_def replies_def no_args_def call0_def
      update_callback_def resolve_this_def ctor_defs Let_def dflt_def)

subsection \<open>The synchronous constructor \<open>get(id)\<close>\<close>

text \<open>
  C6, as amended. For every manager that has a \<open>get\<close> (the container, exec, image,
  network, node, secret, service, task and volume managers) and every identifier
  string, \<open>get(id)\<close> succeeds, dials nothing, leaves every existing object as it is, and
  returns a new handle of the manager's resource class whose identifier is \<open>id\<close> and
  whose transport is the manager's. Its snapshot is the empty mapping, except for a
  Container, whose \<open>data\<close> is declared without a value and is \<open>undefined\<close>. The
  plugin manager, which is the class \<open>Plugin\<close> itself, and the swarm manager have no
  \<open>get\<close>.
\<close>

theorem get_constructs_bare_handle:
  assumes "m < length (heap w)"
  shows "(has_get (cls (heap w ! m)) \<longrightarrow>
           (\<exists>w'. Manager_get m (JStr i) w = Some (length (heap w), w')
              \<and> dialed w' = dialed w
              \<and> take (length (heap w)) (heap w') = heap w
              \<and> cls (heap w' ! length (heap w)) = handle_of (cls (heap w ! m))
              \<and> obj_id (heap w' ! length (heap w)) = JStr i
              \<and> modem (heap w' ! length (heap w)) = modem (heap w ! m)
              \<and> data (heap w' ! length (heap w))
                  = (if cls (heap w ! m) = ContainerManager then JUndefined else JObj [])))
       \<and> (cls (heap w ! m) = Plugin \<or> cls (heap w ! m) = Swarm \<longrightarrow>
            Manager_get m (JStr i) w = None)"
  using assms
  by (cases "cls (heap w ! m)")
    (simp_all add: Manager_get_def has_get_def ctor_defs Let_def nth_append)

theorem get_constructs_bare_handle_witness:
  "has_get (cls (heap (manager VolumeManager) ! 0))
   \<and> (\<exists>w'. Manager_get 0 (JStr ''vol1'') (manager VolumeManager) = Some (1, w')
           \<and> dialed w' = []
           \<and> cls (heap w' ! 1) = Volume
           \<and> obj_id (heap w' ! 1) = JStr ''vol1''
           \<and> modem (heap w' ! 1) = JModem 0
           \<and> data (heap w' ! 1) = JObj [])
   \<and> has_get (cls (heap (manager ContainerManager) ! 0))
   \<and> (\<exists>w'. Manager_get 0 (JStr ''c1'') (manager ContainerManager) = Some (1, w')
           \<and> dialed w' = []
           \<and> cls (heap w' ! 1) = Container
           \<and> obj_id (heap w' ! 1) = JStr ''c1''
           \<and> modem (heap w' ! 1) = JModem 0
           \<and> data (heap w' ! 1) = JUndefined)
   \<and> cls (heap (manager Swarm) ! 0) = Swarm
   \<and> Manager_get 0 (JStr ''s1'') (manager Swarm) = None"
  using get_constructs_bare_handle [of 0 "manager VolumeManager" "''vol1''"]
    get_constructs_bare_handle [of 0 "manager ContainerManager" "''c1''"]
    get_constructs_bare_handle [of 0 "manager Swarm" "''s1''"]
  by (auto simp: manager_def has_get_def blank_def)

text \<open>
  C6 as stated fails for the plugin manager: the facade's \<open>plugin\<close> slot holds a
  \<open>Plugin\<close>, which has no \<open>get\<close>, so the call raises instead of returning a handle.
  And the handle that \<open>ContainerManager.get\<close> returns has no snapshot at all, not an
  empty one: reading a field of its \<open>data\<close> raises.
\<close>

theorem plugin_manager_get_counterexample:
  "Manager_get 0 (JStr ''p1'') (manager Plugin) = None
   \<and> data (heap (snd (the (Manager_get 0 (JStr ''c1'') (manager ContainerManager)))) ! 1)
       = JUndefined
   \<and> JUndefined \<noteq> JObj []
   \<and> get_prop JUndefined ''Id'' = None
   \<and> get_prop (JObj []) ''Id'' = Some JUndefined"
  by (simp add: Manager_get_def manager_def ctor_defs Let_def)

subsection \<open>Exporting a container\<close>

lemma export_run:
  assumes "t < length (heap w)" and "modem (heap w ! t) = JModem m"
    and "Container_call Container_export (heap w ! t) a = Some c"
    and "dial T m c = Some (err, res)" and "get_prop (dflt (opts a)) ''stream'' = Some s"
  shows "run T (ContainerOp Container_export) t a w
    = settle (within T m c) (export_callback s err res (w\<lparr>dialed := dialed w @ [c]\<rparr>))"
proof -
  have d: "descriptor (ContainerOp Container_export) w (heap w ! t) a = Some c"
    using assms(3) by simp
  show ?thesis
    using run1_dial [of t w m "ContainerOp Container_export" a c T err res,
        OF assms(1,2) d assms(4)] assms(5)
    by (simp add: run_single)
qed

text \<open>
  C2, as amended. When the \<open>stream\<close> option is not set (is falsy) the descriptor asks
  for a buffered body (\<open>isStream\<close> false) and the promise resolves with whatever the
  transport delivers, untouched. When it is set the descriptor asks for a stream
  (\<open>isStream\<close> true), and the operation itself consumes the stream delivered: it
  resolves, once the stream has ended, with the concatenation of the chunks as one
  string, and stays pending while the stream has not ended.
\<close>

theorem export_by_stream_option:
  assumes "t < length (heap w)" and "modem (heap w ! t) = JModem m"
    and "Container_call Container_export (heap w ! t) a = Some c"
    and "dial T m c = Some (err, res)" and "\<not> truthy err"
    and "get_prop (dflt (opts a)) ''stream'' = Some s"
  shows "(\<not> truthy s \<longrightarrow>
            isStream c = JBool False
            \<and> run T (ContainerOp Container_export) t a w
                = (Resolved res, w\<lparr>dialed := dialed w @ [c]\<rparr>))
       \<and> (truthy s \<longrightarrow>
            isStream c = true
            \<and> (\<forall>chunks. res = JStream chunks True \<longrightarrow>
                  run T (ContainerOp Container_export) t a w
                    = (Resolved (JStr (concat chunks)), w\<lparr>dialed := dialed w @ [c]\<rparr>))
            \<and> (\<forall>chunks. res = JStream chunks False \<longrightarrow>
                  fst (run T (ContainerOp Container_export) t a w) = Pending))"
  using assms(3,5,6) unfolding export_run [where T = T, OF assms(1,2,3,4,6)]
  by (auto simp: export_callback_def call0_def)

theorem export_by_stream_option_witness:
  "run (replies JNull (JStr ''tarball'')) (ContainerOp Container_export) 0 no_args a_container
     = (Resolved (JStr ''tarball''),
        a_container\<lparr>dialed :=
          [(call0 ''/containers/c1/export?'' GET (JObj [])
              [(200, true), (404, JStr ''no such container''), (500, JStr ''server error'')])
            \<lparr>isStream := JBool False\<rparr>]\<rparr>)
   \<and> run (replies JNull (JStream [''ab'', ''cd''] True)) (ContainerOp Container_export) 0
        (no_args\<lparr>opts := JObj [(''stream'', true)]\<rparr>) a_container
     = (Resolved (JStr ''abcd''),
        a_container\<lparr>dialed :=
          [(call0 ''/containers/c1/export?'' GET (JObj [(''stream'', true)])
              [(200, true), (404, JStr ''no such container''), (500, JStr ''server error'')])
            \<lparr>isStream := true\<rparr>]\<rparr>)
   \<and> fst (run (replies JNull (JStream [''ab''] False)) (ContainerOp Container_export) 0
        (no_args\<lparr>opts := JObj [(''stream'', true)]\<rparr>) a_container) = Pending"
proof -
  have plain: "run (replies JNull (JStr ''tarball'')) (ContainerOp Container_export) 0 no_args
        a_container
     = (Resolved (JStr ''tarball''),
        a_container\<lparr>dialed :=
          [(call0 ''/containers/c1/export?'' GET (JObj [])
              [(200, true), (404, JStr ''no such container''), (500, JStr ''server error'')])
            \<lparr>isStream := JBool False\<rparr>]\<rparr>)"
    using export_by_stream_option [of 0 a_container 0 no_args
        "(call0 ''/containers/c1/export?'' GET (JObj [])
            [(200, true), (404, JStr ''no such container''), (500, JStr ''server error'')])
          \<lparr>isStream := JBool False\<rparr>"
        "replies JNull (JStr ''tarball'')" JNull "JStr ''tarball''" JUndefined]
    by (simp add: a_container_def replies_def no_args_def ctor_defs Let_def dflt_def)
  have ended: "run (replies JNull (JStream [''ab'', ''cd''] True)) (ContainerOp Container_export)
        0 (no_args\<lparr>opts := JObj [(''stream'', true)]\<rparr>) a_container
     = (Resolved (JStr ''abcd''),
        a_container\<lparr>dialed :=
          [(call0 ''/containers/c1/export?'' GET (JObj [(''stream'', true)])
              [(200, true), (404, JStr ''no such container''), (500, JStr ''server error'')])
            \<lparr>isStream := true\<rparr>]\<rparr>)"
    using export_by_stream_option [of 0 a_container 0
        "no_args\<lparr>opts := JObj [(''stream'', true)]\<rparr>"
        "(call0 ''/containers/c1/export?'' GET (JObj [(''stream'', true)])
            [(200, true), (404, JStr ''no such container''), (500, JStr ''server error'')])
          \<lparr>isStream := true\<rparr>"
        "replies JNull (JStream [''ab'', ''cd''] True)" JNull "JStream [''ab'', ''cd''] True"
        true]
    by (simp add: a_container_def replies_def no_args_def ctor_defs Let_def dflt_def)
  have open_stream: "fst (run (replies JNull (JStream [''ab''] False))
        (ContainerOp Container_export) 0 (no_args\<lparr>opts := JObj [(''stream'', true)]\<rparr>)
        a_container) = Pending"
    using export_by_stream_option [of 0 a_container 0
        "no_args\<lparr>opts := JObj [(''stream'', true)]\<rparr>"
        "(call0 ''/containers/c1/export?'' GET (JObj [(''stream'', true)])
            [(200, true), (404, JStr ''no such container''), (500, JStr ''server error'')])
          \<lparr>isStream := true\<rparr>"
        "replies JNull (JStream [''ab''] False)" JNull "JStream [''ab''] False" true]
    by (simp add: a_container_def replies_def no_args_def ctor_defs Let_def dflt_def)
  show ?thesis
    using plain ended open_stream by blast
qed

text \<open>
  C2 as stated fails in both branches. Without the \<open>stream\<close> option a stream that the
  transport delivers is handed through as it is, not buffered into \<open>abcd\<close>; with the
  option the caller gets the string \<open>abcd\<close>, not the stream.
\<close>

theorem export_branches_counterexample:
  "fst (run (replies JNull (JStream [''ab'', ''cd''] True)) (ContainerOp Container_export) 0
          no_args a_container)
     = Resolved (JStream [''ab'', ''cd''] True)
   \<and> Resolved (JStream [''ab'', ''cd''] True) \<noteq> Resolved (JStr ''abcd'')
   \<and> fst (run (replies JNull (JStream [''ab'', ''cd''] True)) (ContainerOp Container_export) 0
          (no_args\<lparr>opts := JObj [(''stream'', true)]\<rparr>) a_container)
     = Resolved (JStr ''abcd'')"
  by (simp add: run_def run1_def a_container_def replies_def no_args_def call0_def
      export_callback_def ctor_defs Let_def dflt_def)

subsection \<open>Committing a container\<close>

lemma replace_first_prefix: "pat \<noteq> [] \<Longrightarrow> replace_first pat (pat @ r) = r"
  by (cases pat) simp_all

lemma replace_first_absent: "(\<forall>u v. s \<noteq> u @ pat @ v) \<Longrightarrow> replace_first pat s = s"
proof (induction s)
  case Nil
  then show ?case by simp
next
  case (Cons c cs)
  have "take (length pat) (c # cs) \<noteq> pat"
  proof
    assume "take (length pat) (c # cs) = pat"
    then have "c # cs = [] @ pat @ drop (length pat) (c # cs)"
      by (metis append_Nil append_take_drop_id)
    with Cons.prems show False by blast
  qed
  moreover have "\<forall>u v. cs \<noteq> u @ pat @ v"
  proof (intro allI notI)
    fix u v assume "cs = u @ pat @ v"
    then have "c # cs = (c # u) @ pat @ v" by simp
    with Cons.prems show False by blast
  qed
  ultimately show ?case using Cons.IH by simp
qed

lemma commit_run:
  assumes "t < length (heap w)" and "modem (heap w ! t) = JModem m"
    and "Container_call Container_commit (heap w ! t) a = Some c"
    and "dial T m c = Some (err, res)"
  shows "run T (ContainerOp Container_commit) t a w
    = settle (within T m c)
        (commit_callback (heap w ! t) err res (w\<lparr>dialed := dialed w @ [c]\<rparr>))"
proof -
  have d: "descriptor (ContainerOp Container_commit) w (heap w ! t) a = Some c"
    using assms(3) by simp
  show ?thesis
    using run1_dial [of t w m "ContainerOp Container_commit" a c T err res,
        OF assms(1,2) d assms(4)]
    by (simp add: run_single)
qed

text \<open>
  C9, as amended. When the transport reports no error and the response has a string
  \<open>Id\<close>, \<open>commit\<close> resolves with a new Image handle, never the receiver, whose transport
  is the receiver's and whose identifier is \<open>Id\<close> with the first occurrence of
  \<open>sha256:\<close> removed: the rest of \<open>Id\<close> when it starts with \<open>sha256:\<close>, and \<open>Id\<close>
  itself when \<open>sha256:\<close> occurs nowhere in it. Without a string \<open>Id\<close> the callback
  raises and nothing is resolved: the promise is left unsettled, or rejected with the
  TypeError when the transport called back from within \<open>dial\<close>.
\<close>

theorem commit_resolves_with_image:
  assumes "t < length (heap w)" and "modem (heap w ! t) = JModem m"
    and "Container_call Container_commit (heap w ! t) a = Some c"
    and "dial T m c = Some (err, res)" and "\<not> truthy err"
  shows "(\<forall>s. get_prop res ''Id'' = Some (JStr s) \<longrightarrow>
            (\<exists>w'. run T (ContainerOp Container_commit) t a w
                     = (Resolved (JRef (length (heap w))), w')
               \<and> length (heap w) \<noteq> t
               \<and> take (length (heap w)) (heap w') = heap w
               \<and> cls (heap w' ! length (heap w)) = Image
               \<and> modem (heap w' ! length (heap w)) = modem (heap w ! t)
               \<and> obj_id (heap w' ! length (heap w)) = JStr (replace_first ''sha256:'' s)
               \<and> (\<forall>r. s = ''sha256:'' @ r \<longrightarrow> obj_id (heap w' ! length (heap w)) = JStr r)
               \<and> ((\<forall>u v. s \<noteq> u @ ''sha256:'' @ v) \<longrightarrow>
                    obj_id (heap w' ! length (heap w)) = JStr s)))
       \<and> ((\<forall>s. get_prop res ''Id'' \<noteq> Some (JStr s)) \<longrightarrow>
            fst (run T (ContainerOp Container_commit) t a w)
              = (if within T m c then Rejected JTypeError else Thrown JTypeError))"
proof (intro conjI allI impI)
  fix s assume s: "get_prop res ''Id'' = Some (JStr s)"
  have p: "\<And>r. s = ''sha256:'' @ r \<Longrightarrow> replace_first ''sha256:'' s = r"
    using replace_first_prefix [of "''sha256:''"] by simp
  have q: "(\<forall>u v. s \<noteq> u @ ''sha256:'' @ v) \<Longrightarrow> replace_first ''sha256:'' s = s"
    by (rule replace_first_absent)
  show "\<exists>w'. run T (ContainerOp Container_commit) t a w
                 = (Resolved (JRef (length (heap w))), w')
           \<and> length (heap w) \<noteq> t
           \<and> take (length (heap w)) (heap w') = heap w
           \<and> cls (heap w' ! length (heap w)) = Image
           \<and> modem (heap w' ! length (heap w)) = modem (heap w ! t)
           \<and> obj_id (heap w' ! length (heap w)) = JStr (replace_first ''sha256:'' s)
           \<and> (\<forall>r. s = ''sha256:'' @ r \<longrightarrow> obj_id (heap w' ! length (heap w)) = JStr r)
           \<and> ((\<forall>u v. s \<noteq> u @ ''sha256:'' @ v) \<longrightarrow>
                obj_id (heap w' ! length (heap w)) = JStr s)"
    using assms(1,5) s p q unfolding commit_run [where T = T, OF assms(1,2,3,4)]
    by (simp add: commit_callback_def without_data_def new_handle_def alloc_def blank_def)
next
  assume "\<forall>s. get_prop res ''Id'' \<noteq> Some (JStr s)"
  then show "fst (run T (ContainerOp Container_commit) t a w)
      = (if within T m c then Rejected JTypeError else Thrown JTypeError)"
    using assms(5) unfolding commit_run [where T = T, OF assms(1,2,3,4)]
    by (auto simp: commit_callback_def split: option.splits jsval.splits)
qed

theorem commit_resolves_with_image_witness:
  "(\<exists>w'. run (replies JNull (JObj [(''Id'', JStr ''sha256:0a1b'')]))
            (ContainerOp Container_commit) 0 no_args a_container = (Resolved (JRef 3), w')
      \<and> cls (heap w' ! 3) = Image
      \<and> obj_id (heap w' ! 3) = JStr ''0a1b'')
   \<and> fst (run (replies JNull (JObj [])) (ContainerOp Container_commit) 0 no_args a_container)
     = Thrown JTypeError
   \<and> fst (run (replies_within JNull (JObj [])) (ContainerOp Container_commit) 0 no_args
          a_container)
     = Rejected JTypeError"
  using commit_resolves_with_image [of 0 a_container 0 no_args
      "call0 ''/commit?'' POST (JObj [(''container'', JStr ''c1'')])
         [(201, true), (404, JStr ''no such container''), (500, JStr ''server error'')]"
      "replies JNull (JObj [(''Id'', JStr ''sha256:0a1b'')])" JNull
      "JObj [(''Id'', JStr ''sha256:0a1b'')]"]
    commit_resolves_with_image [of 0 a_container 0 no_args
      "call0 ''/commit?'' POST (JObj [(''container'', JStr ''c1'')])
         [(201, true), (404, JStr ''no such container''), (500, JStr ''server error'')]"
      "replies JNull (JObj [])" JNull "JObj []"]
    commit_resolves_with_image [of 0 a_container 0 no_args
      "call0 ''/commit?'' POST (JObj [(''container'', JStr ''c1'')])
         [(201, true), (404, JStr ''no such container''), (500, JStr ''server error'')]"
      "replies_within JNull (JObj [])" JNull "JObj []"]
  by (auto simp: a_container_def replies_def replies_within_def no_args_def ctor_defs Let_def
      dflt_def numeral_3_eq_3)

text \<open>
  C9 as stated fails on an \<open>Id\<close> that has \<open>sha256:\<close> elsewhere than at its start: the
  identifier is then neither \<open>Id\<close> with a leading prefix removed nor \<open>Id\<close> itself.
\<close>

theorem commit_inner_prefix_counterexample:
  "take 7 ''xsha256:y'' \<noteq> ''sha256:''
   \<and> fst (run (replies JNull (JObj [(''Id'', JStr ''xsha256:y'')])) (ContainerOp Container_commit)
          0 no_args a_container) = Resolved (JRef 3)
   \<and> obj_id (heap (snd (run (replies JNull (JObj [(''Id'', JStr ''xsha256:y'')]))
          (ContainerOp Container_commit) 0 no_args a_container)) ! 3) = JStr ''xy''"
  by (simp add: run_def run1_def a_container_def replies_def no_args_def call0_def
      commit_callback_def without_data_def ctor_defs Let_def dflt_def)

subsection \<open>The arguments of the plugin methods\<close>

lemma processArguments_eq:
  "processArguments this os i = (if truthy os then os else JObj [], chosen_id this os i)"
  by (simp add: processArguments_def chosen_id_def Let_def)

text \<open>
  C10, as amended. The identifier \<open>__processArguments\<close> returns is the \<open>id\<close> passed
  when it is truthy; else \<open>opts\<close> when that is a non-empty string; else the
  receiver's identifier when that is truthy. When none of the three is there, it is
  \<open>opts\<close> if that is the empty string, and else the \<open>id\<close> just as it was passed:
  \<open>undefined\<close> when none was passed, and a falsy value such as \<open>null\<close> unchanged.
  The identifier is truthy as soon as one of the three sources is. Options that are
  absent, or falsy in another way, become the empty mapping, and truthy options that are
  not a string are passed on as they are. The methods \<open>status\<close>, \<open>remove\<close>, \<open>push\<close>,
  \<open>set\<close>, \<open>enable\<close> and \<open>disable\<close> embed the string form of the identifier in the
  path, whatever it is (\<open>/plugins/undefined?\<close>, \<open>/plugins/null?\<close> or \<open>/plugins/?\<close>
  when no source is there); \<open>upgrade\<close> does the same with no \<open>id\<close> passed.
\<close>

theorem plugin_arguments:
  "snd (processArguments this os i) = chosen_id this os i
   \<and> (truthy i \<longrightarrow> chosen_id this os i = i)
   \<and> (\<not> truthy i \<and> is_string os \<and> truthy os \<longrightarrow> chosen_id this os i = os)
   \<and> (\<not> truthy i \<and> \<not> (is_string os \<and> truthy os) \<and> truthy (obj_id this) \<longrightarrow>
        chosen_id this os i = obj_id this)
   \<and> (\<not> truthy i \<and> \<not> truthy (obj_id this) \<and> os = JStr [] \<longrightarrow>
        chosen_id this os i = JStr [])
   \<and> (\<not> truthy i \<and> \<not> truthy (obj_id this) \<and> \<not> is_string os \<longrightarrow>
        chosen_id this os i = i)
   \<and> (\<not> truthy os \<longrightarrow> fst (processArguments this os i) = JObj [])
   \<and> (truthy os \<and> \<not> is_string os \<longrightarrow> fst (processArguments this os i) = os)
   \<and> (truthy i \<or> (is_string os \<and> truthy os) \<or> truthy (obj_id this)
        \<longrightarrow> truthy (chosen_id this os i))
   \<and> (takes_id p \<longrightarrow>
        (\<exists>c. descriptor (PluginOp p) w this a = Some c
           \<and> path c = ''/plugins/'' @ toString (chosen_id this (opts a) (id_arg a))
                        @ plugin_suffix p))
   \<and> (\<exists>c. descriptor (PluginOp Plugin_upgrade) w this a = Some c
         \<and> path c = ''/plugins/'' @ toString (chosen_id this (opts a) JUndefined)
                      @ ''/upgrade?'')"
proof -
  have "truthy (chosen_id this os i)"
    if "truthy i \<or> (is_string os \<and> truthy os) \<or> truthy (obj_id this)"
    using that by (auto simp: chosen_id_def)
  moreover have "\<exists>c. descriptor (PluginOp p) w this a = Some c
      \<and> path c = ''/plugins/'' @ toString (chosen_id this (opts a) (id_arg a))
                   @ plugin_suffix p"
    if "takes_id p"
    using that by (cases p) (simp_all add: takes_id_def processArguments_eq call0_def)
  moreover have "\<exists>c. descriptor (PluginOp Plugin_upgrade) w this a = Some c
      \<and> path c = ''/plugins/'' @ toString (chosen_id this (opts a) JUndefined)
                   @ ''/upgrade?''"
    by (simp add: processArguments_eq call0_def)
  moreover have "(truthy i \<longrightarrow> chosen_id this os i = i)
      \<and> (\<not> truthy i \<and> is_string os \<and> truthy os \<longrightarrow> chosen_id this os i = os)
      \<and> (\<not> truthy i \<and> \<not> (is_string os \<and> truthy os) \<and> truthy (obj_id this) \<longrightarrow>
           chosen_id this os i = obj_id this)
      \<and> (\<not> truthy i \<and> \<not> truthy (obj_id this) \<and> os = JStr [] \<longrightarrow>
           chosen_id this os i = JStr [])
      \<and> (\<not> truthy i \<and> \<not> truthy (obj_id this) \<and> \<not> is_string os \<longrightarrow>
           chosen_id this os i = i)"
    by (auto simp: chosen_id_def)
  ultimately show ?thesis
    by (simp add: processArguments_eq)
qed

theorem plugin_arguments_witness:
  "snd (processArguments ((blank Plugin)\<lparr>obj_id := JStr ''own''\<rparr>) JUndefined (JStr ''given''))
     = JStr ''given''
   \<and> processArguments ((blank Plugin)\<lparr>obj_id := JStr ''own''\<rparr>) JUndefined JUndefined
     = (JObj [], JStr ''own'')
   \<and> snd (processArguments (blank Plugin) (JStr ''abc'') JUndefined) = JStr ''abc''
   \<and> processArguments (blank Plugin) (JStr []) JUndefined = (JObj [], JStr [])
   \<and> processArguments (blank Plugin) JUndefined JNull = (JObj [], JNull)
   \<and> fst (processArguments (blank Plugin) (JObj [(''force'', true)]) JUndefined)
     = JObj [(''force'', true)]
   \<and> truthy (chosen_id ((blank Plugin)\<lparr>obj_id := JStr ''own''\<rparr>) JUndefined JUndefined)
   \<and> path (the (descriptor (PluginOp Plugin_enable) (manager Plugin)
        ((blank Plugin)\<lparr>obj_id := JStr ''own''\<rparr>) no_args)) = ''/plugins/own/enable?''
   \<and> path (the (descriptor (PluginOp Plugin_status) (manager Plugin) (blank Plugin)
        (no_args\<lparr>opts := JStr []\<rparr>))) = ''/plugins/?''
   \<and> path (the (descriptor (PluginOp Plugin_status) (manager Plugin) (blank Plugin)
        (no_args\<lparr>id_arg := JNull\<rparr>))) = ''/plugins/null?''"
proof -
  note inst =
    plugin_arguments [of "(blank Plugin)\<lparr>obj_id := JStr ''own''\<rparr>" JUndefined
      "JStr ''given''" Plugin_enable "manager Plugin" no_args]
    plugin_arguments [of "(blank Plugin)\<lparr>obj_id := JStr ''own''\<rparr>" JUndefined
      JUndefined Plugin_enable "manager Plugin" no_args]
    plugin_arguments [of "blank Plugin" "JStr ''abc''" JUndefined Plugin_enable
      "manager Plugin" no_args]
    plugin_arguments [of "blank Plugin" "JStr []" JUndefined Plugin_status
      "manager Plugin" "no_args\<lparr>opts := JStr []\<rparr>"]
    plugin_arguments [of "blank Plugin" JUndefined JNull Plugin_status
      "manager Plugin" "no_args\<lparr>id_arg := JNull\<rparr>"]
    plugin_arguments [of "blank Plugin" "JObj [(''force'', true)]" JUndefined Plugin_enable
      "manager Plugin" no_args]
  show ?thesis
    using inst
    by (auto simp: chosen_id_def blank_def takes_id_def no_args_def call0_def
        processArguments_eq)
qed

text \<open>
  C10 as stated fails on a plugin without an identifier, which is what the facade's
  \<open>plugin\<close> slot holds: a call without \<open>id\<close> has nothing to fall back on, and the
  path embeds \<open>undefined\<close>.
\<close>

theorem plugin_arguments_counterexample:
  "obj_id (heap (manager Plugin) ! 0) = JUndefined
   \<and> processArguments (heap (manager Plugin) ! 0) JUndefined JUndefined = (JObj [], JUndefined)
   \<and> descriptor (PluginOp Plugin_status) (manager Plugin) (heap (manager Plugin) ! 0) no_args
       = Some (call0 ''/plugins/undefined?'' GET (JObj [])
           [(200, true), (404, JStr ''no such plugin''), (500, JStr ''server error'')])"
  by (simp add: processArguments_def manager_def blank_def no_args_def call0_def Let_def)

subsection \<open>Removing a resource\<close>

text \<open>
  C7, as amended. The descriptors of \<open>Image.remove\<close> and \<open>Volume.remove\<close> map the
  status code 409 to the label \<open>conflict\<close>; those of \<open>remove\<close> on a plugin, network,
  node, secret or service list no 409 at all. Every \<open>remove\<close>, and \<open>delete\<close> of a
  container, resolves on success with the response exactly as the transport delivered
  it, and changes no object.
\<close>

theorem remove_conflict_label:
  assumes "t < length (heap w)" and "modem (heap w ! t) = JModem m"
    and "p \<in> set remove_ops" and "descriptor p w (heap w ! t) a = Some c"
    and "dial T m c = Some (err, res)" and "\<not> truthy err"
  shows "run T p t a w = (Resolved res, w\<lparr>dialed := dialed w @ [c]\<rparr>)
       \<and> (p = ImageOp Image_remove \<or> p = VolumeOp Volume_remove \<longrightarrow>
            map_of (statusCodes c) 409 = Some (JStr ''conflict''))
       \<and> (p = PluginOp Plugin_remove \<or> p = NetworkOp Network_remove
            \<or> p = NodeOp Node_remove \<or> p = SecretOp Secret_remove
            \<or> p = ServiceOp Service_remove \<longrightarrow>
            map_of (statusCodes c) 409 = None)"
proof -
  have tag: "p \<noteq> ImageOp Image_tag"
    using assms(3) by (auto simp: remove_ops_def)
  have r: "run T p t a w
      = settle (within T m c)
          (callback p t (prepared p (heap w ! t) a) err res (w\<lparr>dialed := dialed w @ [c]\<rparr>))"
    using run1_dial [of t w m p a c T err res, OF assms(1,2,4,5)] tag
    by (simp add: run_single)
  have "callback p t (prepared p (heap w ! t) a) err res (w\<lparr>dialed := dialed w @ [c]\<rparr>)
      = (Resolved res, w\<lparr>dialed := dialed w @ [c]\<rparr>)"
    using assms(3,6) by (auto simp: remove_ops_def pass_def)
  moreover have "p = ImageOp Image_remove \<or> p = VolumeOp Volume_remove \<longrightarrow>
      map_of (statusCodes c) 409 = Some (JStr ''conflict'')"
    using assms(4) by (auto simp: call0_def)
  moreover have "p = PluginOp Plugin_remove \<or> p = NetworkOp Network_remove
      \<or> p = NodeOp Node_remove \<or> p = SecretOp Secret_remove
      \<or> p = ServiceOp Service_remove \<longrightarrow> map_of (statusCodes c) 409 = None"
    using assms(4) by (auto simp: call0_def)
  ultimately show ?thesis
    unfolding r by simp
qed

theorem remove_conflict_label_witness:
  "run (replies JNull (JStr ''gone'')) (VolumeOp Volume_remove) 0 no_args
       \<lparr>heap = [(blank Volume)\<lparr>modem := JModem 0, obj_id := JStr ''v1''\<rparr>], dialed = []\<rparr>
     = (Resolved (JStr ''gone''),
        \<lparr>heap = [(blank Volume)\<lparr>modem := JModem 0, obj_id := JStr ''v1''\<rparr>],
         dialed = [call0 ''/volumes/v1?'' DELETE JUndefined
           [(204, true), (404, JStr ''no such volume''), (409, JStr ''conflict''),
            (500, JStr ''server error'')]]\<rparr>)
   \<and> map_of (statusCodes (call0 ''/volumes/v1?'' DELETE JUndefined
           [(204, true), (404, JStr ''no such volume''), (409, JStr ''conflict''),
            (500, JStr ''server error'')])) 409 = Some (JStr ''conflict'')
   \<and> fst (run (replies JNull JNull) (NodeOp Node_remove) 0 no_args
       \<lparr>heap = [(blank Node)\<lparr>modem := JModem 0, obj_id := JStr ''n1''\<rparr>], dialed = []\<rparr>)
     = Resolved JNull
   \<and> map_of (statusCodes (call0 ''/nodes/n1?'' DELETE JUndefined
           [(204, true), (404, JStr ''no such node''), (500, JStr ''server error'')])) 409
     = None"
  using remove_conflict_label [of 0
      "\<lparr>heap = [(blank Volume)\<lparr>modem := JModem 0, obj_id := JStr ''v1''\<rparr>], dialed = []\<rparr>"
      0 "VolumeOp Volume_remove" no_args
      "call0 ''/volumes/v1?'' DELETE JUndefined
           [(204, true), (404, JStr ''no such volume''), (409, JStr ''conflict''),
            (500, JStr ''server error'')]"
      "replies JNull (JStr ''gone'')" JNull "JStr ''gone''"]
    remove_conflict_label [of 0
      "\<lparr>heap = [(blank Node)\<lparr>modem := JModem 0, obj_id := JStr ''n1''\<rparr>], dialed = []\<rparr>"
      0 "NodeOp Node_remove" no_args
      "call0 ''/nodes/n1?'' DELETE JUndefined
           [(204, true), (404, JStr ''no such node''), (500, JStr ''server error'')]"
      "replies JNull JNull" JNull JNull]
  by (simp add: remove_ops_def replies_def no_args_def blank_def)

text \<open>
  C7 as stated fails for the handle kinds whose \<open>remove\<close> declares no conflict code:
  the table of \<open>Service.remove\<close> has no entry for 409.
\<close>

theorem service_remove_counterexample:
  "descriptor (ServiceOp Service_remove) (manager Service)
       ((blank Service)\<lparr>modem := JModem 0, obj_id := JStr ''s1''\<rparr>) no_args
     = Some (call0 ''/services/s1?'' DELETE JUndefined
         [(200, true), (404, JStr ''no such service''), (500, JStr ''server error'')])
   \<and> map_of [(200::nat, true), (404, JStr ''no such service''), (500, JStr ''server error'')]
        409 = None"
  by (simp add: blank_def no_args_def)

subsection \<open>The query placeholder of the path\<close>

lemma Exec_call_path:
  "Exec_call p cid this a = Some c \<Longrightarrow> last (path c) = CHR ''?'' \<and> CHR ''?'' \<in> set (path c)"
  by (cases p) (auto simp: call0_def split: option.splits)

lemma ContainerFs_call_path:
  "ContainerFs_call p cid a = Some c \<Longrightarrow>
     CHR ''?'' \<in> set (path c)
     \<and> (p \<noteq> ContainerFs_get \<longrightarrow> last (path c) = CHR ''?'')
     \<and> (p = ContainerFs_get \<longrightarrow> last (path c) = CHR ''&'')"
  by (cases p) (auto simp: call0_def split: option.splits)

lemma Container_call_path:
  "Container_call p this a = Some c \<Longrightarrow> last (path c) = CHR ''?'' \<and> CHR ''?'' \<in> set (path c)"
  by (cases p) (auto simp: call0_def split: option.splits)

lemma Plugin_call_path: "last (path (Plugin_call p a)) = CHR ''?'' \<and> CHR ''?'' \<in> set (path (Plugin_call p a))"
  by (cases p) (simp_all add: call0_def)

text \<open>
  C8, as amended. Leaving aside the four \<open>prune\<close> operations, \<open>VolumeManager.list\<close> and
  \<open>SecretManager.list\<close>, every descriptor an operation builds has a \<open>?\<close> in its path.
  It is the last character of the path, except for \<open>ContainerFs.get\<close>, which writes
  the \<open>path\<close> parameter into the query itself and ends in \<open>&\<close>.
\<close>

theorem path_query_placeholder:
  assumes "p \<notin> set no_placeholder" and "descriptor p w this a = Some c"
  shows "CHR ''?'' \<in> set (path c)
       \<and> (p \<noteq> FsOp ContainerFs_get \<longrightarrow> last (path c) = CHR ''?'')
       \<and> (p = FsOp ContainerFs_get \<longrightarrow> last (path c) = CHR ''&'')"
proof (cases p)
  case (DockerOp q)
  then show ?thesis using assms(2) by (cases q) (auto simp: call0_def)
next
  case (ExecOp q)
  then show ?thesis using assms(2) Exec_call_path by auto
next
  case (FsOp q)
  then show ?thesis using assms(2) ContainerFs_call_path by auto
next
  case (ContainerOp q)
  then show ?thesis using assms(2) Container_call_path by auto
next
  case (ContainerManagerOp q)
  then show ?thesis using assms by (cases q) (auto simp: call0_def no_placeholder_def)
next
  case (ImageOp q)
  then show ?thesis using assms by (cases q) (auto simp: call0_def no_placeholder_def)
next
  case (PluginOp q)
  then show ?thesis using assms(2) Plugin_call_path by auto
next
  case (NetworkOp q)
  then show ?thesis using assms by (cases q) (auto simp: call0_def no_placeholder_def)
next
  case (NodeOp q)
  then show ?thesis using assms by (cases q) (auto simp: call0_def no_placeholder_def)
next
  case (SecretOp q)
  then show ?thesis using assms by (cases q) (auto simp: call0_def no_placeholder_def)
next
  case (ServiceOp q)
  then show ?thesis using assms by (cases q) (auto simp: call0_def no_placeholder_def)
next
  case (SwarmOp q)
  then show ?thesis using assms by (cases q) (auto simp: call0_def no_placeholder_def)
next
  case (TaskOp q)
  then show ?thesis using assms by (cases q) (auto simp: call0_def no_placeholder_def)
next
  case (VolumeOp q)
  then show ?thesis using assms by (cases q) (auto simp: call0_def no_placeholder_def)
qed

theorem path_query_placeholder_witness:
  "ContainerManagerOp ContainerManager_list \<notin> set no_placeholder
   \<and> descriptor (ContainerManagerOp ContainerManager_list) (manager ContainerManager)
        (heap (manager ContainerManager) ! 0) no_args
      = Some (call0 ''/containers/json?'' GET JUndefined
          [(200, true), (400, JStr ''bad request''), (500, JStr ''server error'')])
   \<and> last ''/containers/json?'' = CHR ''?''
   \<and> FsOp ContainerFs_get \<notin> set no_placeholder
   \<and> descriptor (FsOp ContainerFs_get) a_container (heap a_container ! 1) no_args
      = Some ((call0 ''/containers/c1/archive?path=undefined&'' GET (JObj [])
          [(200, true), (400, JStr ''bad request''), (404, JStr ''no such container''),
           (500, JStr ''server error'')])\<lparr>isStream := true\<rparr>)
   \<and> CHR ''?'' \<in> set ''/containers/c1/archive?path=undefined&''
   \<and> last ''/containers/c1/archive?path=undefined&'' = CHR ''&''"
  using path_query_placeholder [of "ContainerManagerOp ContainerManager_list"
      "manager ContainerManager" "heap (manager ContainerManager) ! 0" no_args
      "call0 ''/containers/json?'' GET JUndefined
          [(200, true), (400, JStr ''bad request''), (500, JStr ''server error'')]"]
    path_query_placeholder [of "FsOp ContainerFs_get" a_container "heap a_container ! 1"
      no_args
      "(call0 ''/containers/c1/archive?path=undefined&'' GET (JObj [])
          [(200, true), (400, JStr ''bad request''), (404, JStr ''no such container''),
           (500, JStr ''server error'')])\<lparr>isStream := true\<rparr>"]
  by (simp add: no_placeholder_def no_args_def call0_def a_container_def container_id_def
      ctor_defs Let_def dflt_def)

text \<open>
  C8 as stated fails at \<open>ContainerFs.get\<close>: the path it builds for the container
  \<open>c1\<close> and the option \<open>path: '/etc'\<close> ends in \<open>&\<close>.
\<close>

theorem ContainerFs_get_path_counterexample:
  "descriptor (FsOp ContainerFs_get) a_container (heap a_container ! 1)
       (no_args\<lparr>opts := JObj [(''path'', JStr ''/etc'')]\<rparr>)
     = Some ((call0 ''/containers/c1/archive?path=/etc&'' GET (JObj [(''path'', JStr ''/etc'')])
          [(200, true), (400, JStr ''bad request''), (404, JStr ''no such container''),
           (500, JStr ''server error'')])\<lparr>isStream := true\<rparr>)
   \<and> last ''/containers/c1/archive?path=/etc&'' = CHR ''&''
   \<and> CHR ''&'' \<noteq> CHR ''?''"
  by (simp add: a_container_def container_id_def no_args_def call0_def ctor_defs Let_def
      dflt_def)

subsection \<open>Inspecting a resource\<close>

lemma status_frame:
  assumes "t < length (heap w)" and "p \<in> set all_status"
  shows "take (length (heap w)) (heap (snd (run T p t a w))) = heap w"
proof -
  have tag: "p \<noteq> ImageOp Image_tag"
    using assms(2) by (auto simp: all_status_def status_ops_def)
  have "take (length (heap w)) (heap (snd (run1 T p t a w))) = heap w"
    using assms
    by (auto simp: all_status_def status_ops_def run1_def Exec_from_conf_def
        same_id_def with_data_def Object_assign_def ctor_defs Let_def
        split: option.splits jsval.splits prod.splits)
  then show ?thesis
    using tag by (simp add: run_single)
qed

lemma status_same_id:
  assumes "t < length (heap w)" and "modem (heap w ! t) = JModem m"
    and "(p, k) \<in> set status_ops" and "descriptor p w (heap w ! t) a = Some c"
    and "dial T m c = Some (err, res)" and "\<not> truthy err"
  shows "fst (run T p t a w) = Resolved (JRef (length (heap w)))
       \<and> length (heap w) \<noteq> t
       \<and> cls (heap (snd (run T p t a w)) ! length (heap w)) = k
       \<and> obj_id (heap (snd (run T p t a w)) ! length (heap w)) = obj_id (heap w ! t)
       \<and> modem (heap (snd (run T p t a w)) ! length (heap w)) = modem (heap w ! t)
       \<and> data (heap (snd (run T p t a w)) ! length (heap w)) = res"
proof -
  have tag: "p \<noteq> ImageOp Image_tag"
    using assms(3) by (auto simp: status_ops_def)
  have r: "run T p t a w
      = settle (within T m c)
          (callback p t (prepared p (heap w ! t) a) err res (w\<lparr>dialed := dialed w @ [c]\<rparr>))"
    using run1_dial [of t w m p a c T err res, OF assms(1,2,4,5)] tag
    by (simp add: run_single)
  show ?thesis
    using assms(1,3,6) unfolding r
    by (auto simp: status_ops_def same_id_def with_data_def ctor_defs Let_def nth_append)
qed

text \<open>
  C5, as amended. No \<open>status\<close> operation, whatever the transport replies, changes an
  object that exists when it is called; the receiver in particular keeps every field.
  For a Container, Image, Network, Node, Secret, Service, Task or Volume a successful
  \<open>status\<close> resolves with a newly built handle of the same class that has the
  receiver's identifier and transport and the fetched body as its snapshot. A
  successful \<open>Plugin.status\<close> resolves with a newly built plugin whose identifier is
  the one \<open>__processArguments\<close> settles on and onto which the fields of the body are
  copied; a successful \<open>Swarm.status\<close> with a newly built swarm holding the body.
\<close>

theorem status_builds_new_handle:
  assumes "t < length (heap w)" and "p \<in> set all_status"
  shows "take (length (heap w)) (heap (snd (run T p t a w))) = heap w
       \<and> (\<forall>k m c err res.
            (p, k) \<in> set status_ops \<and> modem (heap w ! t) = JModem m
            \<and> descriptor p w (heap w ! t) a = Some c \<and> dial T m c = Some (err, res)
            \<and> \<not> truthy err \<longrightarrow>
              fst (run T p t a w) = Resolved (JRef (length (heap w)))
              \<and> length (heap w) \<noteq> t
              \<and> cls (heap (snd (run T p t a w)) ! length (heap w)) = k
              \<and> obj_id (heap (snd (run T p t a w)) ! length (heap w)) = obj_id (heap w ! t)
              \<and> modem (heap (snd (run T p t a w)) ! length (heap w)) = modem (heap w ! t)
              \<and> data (heap (snd (run T p t a w)) ! length (heap w)) = res)
       \<and> (\<forall>m c err res.
            p = PluginOp Plugin_status \<and> modem (heap w ! t) = JModem m
            \<and> descriptor p w (heap w ! t) a = Some c \<and> dial T m c = Some (err, res)
            \<and> \<not> truthy err \<longrightarrow>
              fst (run T p t a w) = Resolved (JRef (length (heap w)))
              \<and> heap (snd (run T p t a w)) ! length (heap w)
                  = fold set_field (own_props res)
                      ((blank Plugin)\<lparr>modem := modem (heap w ! t),
                         obj_id := chosen_id (heap w ! t) (opts a) (id_arg a)\<rparr>))
       \<and> (\<forall>m c err res.
            p = SwarmOp Swarm_status \<and> modem (heap w ! t) = JModem m
            \<and> descriptor p w (heap w ! t) a = Some c \<and> dial T m c = Some (err, res)
            \<and> \<not> truthy err \<longrightarrow>
              fst (run T p t a w) = Resolved (JRef (length (heap w)))
              \<and> heap (snd (run T p t a w)) ! length (heap w)
                  = (blank Swarm)\<lparr>modem := modem (heap w ! t), data := res\<rparr>)"
proof -
  have frame: "take (length (heap w)) (heap (snd (run T p t a w))) = heap w"
    using assms by (rule status_frame)
  have plain: "fst (run T p t a w) = Resolved (JRef (length (heap w)))
      \<and> length (heap w) \<noteq> t
      \<and> cls (heap (snd (run T p t a w)) ! length (heap w)) = k
      \<and> obj_id (heap (snd (run T p t a w)) ! length (heap w)) = obj_id (heap w ! t)
      \<and> modem (heap (snd (run T p t a w)) ! length (heap w)) = modem (heap w ! t)
      \<and> data (heap (snd (run T p t a w)) ! length (heap w)) = res"
    if "(p, k) \<in> set status_ops \<and> modem (heap w ! t) = JModem m
      \<and> descriptor p w (heap w ! t) a = Some c \<and> dial T m c = Some (err, res) \<and> \<not> truthy err"
    for k m c err res
    using status_same_id [of t w m p k a c T err res] assms(1) that by blast
  have plugin: "fst (run T p t a w) = Resolved (JRef (length (heap w)))
      \<and> heap (snd (run T p t a w)) ! length (heap w)
          = fold set_field (own_props res)
              ((blank Plugin)\<lparr>modem := modem (heap w ! t),
                 obj_id := chosen_id (heap w ! t) (opts a) (id_arg a)\<rparr>)"
    if h: "p = PluginOp Plugin_status \<and> modem (heap w ! t) = JModem m
      \<and> descriptor p w (heap w ! t) a = Some c \<and> dial T m c = Some (err, res) \<and> \<not> truthy err"
    for m c err res
  proof -
    from h have q: "p \<noteq> ImageOp Image_tag" and m: "modem (heap w ! t) = JModem m"
      and d: "descriptor p w (heap w ! t) a = Some c" and T: "dial T m c = Some (err, res)"
      by blast+
    have "run T p t a w
        = settle (within T m c)
          (callback p t (prepared p (heap w ! t) a) err res (w\<lparr>dialed := dialed w @ [c]\<rparr>))"
      using run1_dial [of t w m p a c T err res, OF assms(1) m d T] q
      by (simp add: run_single)
    then show ?thesis
      using h assms(1)
      by (simp add: processArguments_eq Object_assign_def new_Plugin_def alloc_def)
  qed
  have swarm: "fst (run T p t a w) = Resolved (JRef (length (heap w)))
      \<and> heap (snd (run T p t a w)) ! length (heap w)
          = (blank Swarm)\<lparr>modem := modem (heap w ! t), data := res\<rparr>"
    if h: "p = SwarmOp Swarm_status \<and> modem (heap w ! t) = JModem m
      \<and> descriptor p w (heap w ! t) a = Some c \<and> dial T m c = Some (err, res) \<and> \<not> truthy err"
    for m c err res
  proof -
    from h have q: "p \<noteq> ImageOp Image_tag" and m: "modem (heap w ! t) = JModem m"
      and d: "descriptor p w (heap w ! t) a = Some c" and T: "dial T m c = Some (err, res)"
      by blast+
    have "run T p t a w
        = settle (within T m c)
          (callback p t (prepared p (heap w ! t) a) err res (w\<lparr>dialed := dialed w @ [c]\<rparr>))"
      using run1_dial [of t w m p a c T err res, OF assms(1) m d T] q
      by (simp add: run_single)
    then show ?thesis
      using h assms(1)
      by (simp add: with_data_def new_Swarm_def alloc_def set_data_def)
  qed
  show ?thesis
    using frame plain plugin swarm by blast
qed

theorem status_builds_new_handle_witness:
  "take 3 (heap (snd (run (replies JNull (JObj [(''Id'', JStr ''c1'')]))
       (ContainerOp Container_status) 0 no_args a_container))) = heap a_container
   \<and> fst (run (replies JNull (JObj [(''Id'', JStr ''c1'')]))
       (ContainerOp Container_status) 0 no_args a_container) = Resolved (JRef 3)
   \<and> obj_id (heap (snd (run (replies JNull (JObj [(''Id'', JStr ''c1'')]))
       (ContainerOp Container_status) 0 no_args a_container)) ! 3) = JStr ''c1''
   \<and> data (heap (snd (run (replies JNull (JObj [(''Id'', JStr ''c1'')]))
       (ContainerOp Container_status) 0 no_args a_container)) ! 3)
      = JObj [(''Id'', JStr ''c1'')]
   \<and> heap (snd (run (replies JNull (JObj [(''Name'', JStr ''n'')]))
       (PluginOp Plugin_status) 0 no_args a_plugin)) ! 1
      = (blank Plugin)\<lparr>modem := JModem 0, obj_id := JStr ''p1'',
           props := [(''Name'', JStr ''n'')]\<rparr>
   \<and> heap (snd (run (replies JNull (JObj [])) (SwarmOp Swarm_status) 0 no_args
       (manager Swarm))) ! 1
      = (blank Swarm)\<lparr>modem := JModem 0, data := JObj []\<rparr>"
  using status_builds_new_handle [of 0 a_container "ContainerOp Container_status"
      "replies JNull (JObj [(''Id'', JStr ''c1'')])" no_args]
    status_builds_new_handle [of 0 a_plugin "PluginOp Plugin_status"
      "replies JNull (JObj [(''Name'', JStr ''n'')])" no_args]
    status_builds_new_handle [of 0 "manager Swarm" "SwarmOp Swarm_status"
      "replies JNull (JObj [])" no_args]
  by (simp add: all_status_def status_ops_def a_container_def a_plugin_def manager_def
      replies_def no_args_def ctor_defs Let_def call0_def chosen_id_def own_props_def
      set_field_def processArguments_eq numeral_3_eq_3)

text \<open>
  C5 as stated fails for a plugin: \<open>status(opts, id)\<close> called with an \<open>id\<close> on the
  plugin \<open>p1\<close> resolves with a handle for that other identifier, and the body is not
  its snapshot but is spread over its fields.
\<close>

theorem Plugin_status_counterexample:
  "fst (run (replies JNull (JObj [(''Name'', JStr ''n'')])) (PluginOp Plugin_status) 0
          (no_args\<lparr>id_arg := JStr ''other''\<rparr>) a_plugin) = Resolved (JRef 1)
   \<and> heap (snd (run (replies JNull (JObj [(''Name'', JStr ''n'')])) (PluginOp Plugin_status) 0
          (no_args\<lparr>id_arg := JStr ''other''\<rparr>) a_plugin)) ! 1
       = (blank Plugin)\<lparr>modem := JModem 0, obj_id := JStr ''other'',
            props := [(''Name'', JStr ''n'')]\<rparr>
   \<and> obj_id (heap a_plugin ! 0) = JStr ''p1''
   \<and> JStr ''other'' \<noteq> JStr ''p1''"
  by (simp add: run_def run1_def a_plugin_def replies_def no_args_def call0_def
      processArguments_def Object_assign_def own_props_def set_field_def ctor_defs Let_def)

subsection \<open>Rejection and resolution\<close>






























end
